theory Spec2Isabelle
  imports Complex_Main "HOL-Library.Word" "HOL-Library.AList" "HOL-Library.Sublist"
begin

text \<open>
  A model of the classroom client of the Open WebUI fork: the stores of
  \<open>src/lib/stores/classroom.ts\<close>, the session controller of the classroom page (the
  handler of the room socket, the listener audio queue, the polls, leaving a room), the
  voice bridge of \<open>src/lib/services/pipecat.ts\<close> and the REST wrappers of
  \<open>src/lib/apis/classroom/index.ts\<close>. State is passed explicitly, exceptions are values
  of a sum type, and what the browser and the server decide (the time, the state of a new
  audio context, the frames, the answers) comes in as input. The definitions come first;
  the properties follow.
\<close>

section \<open>Data model\<close>

text \<open>
  The types of \<open>src/lib/apis/classroom/index.ts\<close> and \<open>src/lib/stores/classroom.ts\<close>.
  A field that TypeScript marks optional (\<open>f?: T\<close>) or nullable (\<open>T | null\<close>) is an
  \<open>option\<close>; \<open>None\<close> stands for both \<open>undefined\<close> and \<open>null\<close>, which the code does not
  tell apart on these fields (it uses \<open>??\<close>, \<open>||\<close> and truthiness tests on them; the one
  strict comparison, in \<open>updateMessageReaction\<close>, has its own type below). Field names
  that two types share carry a prefix here.
\<close>

datatype hand_status = Pending | Acknowledged | Dismissed
datatype room_kind = Teacher_driven | Discussion
datatype msg_role = User | Assistant
datatype playback_mode = Text_and_audio | Text_only
datatype voice_mode = Voice | Text
datatype ClassroomState = Lobby | Joining | Active | History | Dashboard | Settings | Failed

record ClassroomUser =
  user_id :: string
  name :: string
  language :: string
  mode :: string
  is_speaker :: bool
  is_teacher :: "bool option"

record HandRaise =
  hr_id :: string
  hr_user_id :: string
  hr_user_name :: string
  question_preview :: "string option"
  status :: hand_status
  raised_at :: nat
  resolved_at :: "nat option"

record ClassroomRoom =
  room_id :: string
  room_name :: string
  created_at :: nat
  user_count :: int
  users :: "ClassroomUser list"
  speaker_id :: "string option"
  speaker_name :: "string option"
  token_queue :: "string list"
  hand_raises :: "HandRaise list option"
  active_session_id :: "string option"
  topic :: "string option"
  teacher_id :: "string option"
  current_lesson_topic :: "string option"
  room_type :: room_kind
  curriculum_chapter_id :: "string option"
  curriculum_section_id :: "string option"

record ClassroomMessage =
  msg_id :: string
  role :: msg_role
  msg_speaker_name :: "string option"
  content :: string
  translated :: "bool option"
  timestamp :: nat
  streaming :: "bool option"
  reaction_counts :: "(string \<times> int) list option"
  db_message_id :: "string option"
  interrupted :: "bool option"

text \<open>
  JavaScript's \<open>a || b\<close> on an optional string: the right operand is taken when the left
  one is missing or the empty string. \<open>truthy\<close> is the test \<open>!!a\<close>.
\<close>

definition truthy :: "string option \<Rightarrow> bool" where
  "truthy a = (case a of None \<Rightarrow> False | Some t \<Rightarrow> t \<noteq> [])"

definition js_or :: "string option \<Rightarrow> string \<Rightarrow> string" where
  "js_or a b = (case a of None \<Rightarrow> b | Some t \<Rightarrow> if t = [] then b else t)"

text \<open>Decimal rendering of a number inside a template string.\<close>

definition digit_char :: "nat \<Rightarrow> char" where
  "digit_char d = char_of (48 + d)"

fun show_nat :: "nat \<Rightarrow> string" where
  "show_nat n =
     (if n < 10 then [digit_char n] else show_nat (n div 10) @ [digit_char (n mod 10)])"

declare show_nat.simps [simp del]

section \<open>The message log\<close>

text \<open>
  The updaters that \<open>handleWsMessage\<close> passes to \<open>classroomMessages.update\<close>. Each takes
  the payload of the event, the value of \<open>Date.now()\<close> and the current log, and returns the
  new log. \<open>last_streaming\<close> is the test
  \<open>last && last.role === 'assistant' && last._streaming\<close> on the tail of the log.
\<close>

definition last_streaming :: "ClassroomMessage list \<Rightarrow> bool" where
  "last_streaming msgs =
     (msgs \<noteq> [] \<and> role (last msgs) = Assistant \<and> streaming (last msgs) = Some True)"

definition bot_text_update ::
  "string option \<Rightarrow> nat \<Rightarrow> ClassroomMessage list \<Rightarrow> ClassroomMessage list" where
  "bot_text_update text now msgs =
     (if last_streaming msgs then
        butlast msgs @ [(last msgs)\<lparr>content := content (last msgs) @ js_or text ''''\<rparr>]
      else
        msgs @
        [\<lparr>msg_id = ''msg-'' @ show_nat now, role = Assistant,
          msg_speaker_name = Some ''Mira'', content = js_or text '''',
          translated = None, timestamp = now, streaming = Some True,
          reaction_counts = None, db_message_id = None, interrupted = None\<rparr>])"

definition bot_text_complete_update ::
  "string option \<Rightarrow> bool \<Rightarrow> nat \<Rightarrow> ClassroomMessage list \<Rightarrow> ClassroomMessage list" where
  "bot_text_complete_update text intr now msgs =
     (if last_streaming msgs then
        butlast msgs @
        [(last msgs)\<lparr>content := js_or text (content (last msgs)),
                      streaming := Some False, interrupted := Some intr\<rparr>]
      else if truthy text then
        msgs @
        [\<lparr>msg_id = ''msg-'' @ show_nat now, role = Assistant,
          msg_speaker_name = Some ''Mira'', content = js_or text '''',
          translated = None, timestamp = now, streaming = None,
          reaction_counts = None, db_message_id = None, interrupted = Some intr\<rparr>]
      else msgs)"

text \<open>
  \<open>bot_response\<close> and \<open>transcription\<close> carry \<open>text\<close> and an optional
  \<open>translated_text\<close>; the text shown is \<open>translated_text || text\<close>, and the message is
  marked translated when \<open>!!translated_text && translated_text !== text\<close>.
\<close>

definition is_translated :: "string \<Rightarrow> string option \<Rightarrow> bool" where
  "is_translated text translated_text =
     (truthy translated_text \<and> translated_text \<noteq> Some text)"

definition bot_response_update ::
  "string \<Rightarrow> string option \<Rightarrow> nat \<Rightarrow> ClassroomMessage list \<Rightarrow> ClassroomMessage list" where
  "bot_response_update text translated_text now msgs =
     (if last_streaming msgs then
        butlast msgs @
        [(last msgs)\<lparr>content := js_or translated_text text, streaming := Some False,
                      translated := Some (is_translated text translated_text)\<rparr>]
      else
        msgs @
        [\<lparr>msg_id = ''msg-'' @ show_nat now, role = Assistant,
          msg_speaker_name = Some ''Mira'', content = js_or translated_text text,
          translated = Some (is_translated text translated_text), timestamp = now,
          streaming = None, reaction_counts = None, db_message_id = None,
          interrupted = None\<rparr>])"

text \<open>
  \<open>updateMessageReaction\<close>: the count of an emoji never goes below zero and a count of
  zero is deleted. A JavaScript object keeps its keys in insertion order, as an association
  list updated in place does.
\<close>

definition bump_reaction ::
  "string \<Rightarrow> int \<Rightarrow> (string \<times> int) list option \<Rightarrow> (string \<times> int) list" where
  "bump_reaction emoji delta counts0 =
     (let counts = (case counts0 of None \<Rightarrow> [] | Some c \<Rightarrow> c);
          n = max 0 ((case map_of counts emoji of None \<Rightarrow> 0 | Some k \<Rightarrow> k) + delta)
      in if n = 0 then AList.delete emoji counts else AList.update emoji n counts)"

text \<open>
  The \<open>message_id\<close> of a \<open>reaction_update\<close>: a string, left out (\<open>undefined\<close>), or any
  other value (\<open>null\<close>, a number). The test is
  \<open>m.id === messageId || m.db_message_id === messageId\<close>: an id that was left out equals
  the \<open>db_message_id\<close> of a message that has none, and a value that is not a string
  equals neither field.
\<close>

datatype message_ref = Id_given string | Id_missing | Id_other

definition refers_to :: "message_ref \<Rightarrow> ClassroomMessage \<Rightarrow> bool" where
  "refers_to messageId m =
     (case messageId of
        Id_given i \<Rightarrow> msg_id m = i \<or> db_message_id m = Some i
      | Id_missing \<Rightarrow> db_message_id m = None
      | Id_other \<Rightarrow> False)"

definition reaction_update_map ::
  "message_ref \<Rightarrow> string \<Rightarrow> int \<Rightarrow> ClassroomMessage list \<Rightarrow> ClassroomMessage list" where
  "reaction_update_map messageId emoji delta msgs =
     map (\<lambda>m. if refers_to messageId m
               then m\<lparr>reaction_counts := Some (bump_reaction emoji delta (reaction_counts m))\<rparr>
               else m) msgs"

section \<open>Listener audio: PCM decoding\<close>

text \<open>
  The classroom page receives raw little-endian 16-bit PCM on the room socket and turns
  every frame into a \<open>Float32Array\<close> before queueing it (\<open>queueAudioChunk\<close>).
  An \<open>ArrayBuffer\<close> is a list of bytes. \<open>new Int16Array(buffer)\<close> throws a
  \<open>RangeError\<close> when the byte length is odd; otherwise element \<open>i\<close> is read from
  bytes \<open>2i\<close> (low) and \<open>2i+1\<close> (high). Every quotient \<open>int16 / 32768\<close> has at most
  16 significant bits, so the value stored in the \<open>Float32Array\<close> is the exact quotient
  and is modelled as a real number.
\<close>

type_synonym byte = "8 word"
type_synonym int16 = "16 word"

datatype js_error =
    RangeError
  | TypeError
  | SyntaxError
  | NotSupportedError
  | Error string

fun int16_elements :: "byte list \<Rightarrow> int16 list" where
  "int16_elements (lo # hi # bs) = word_cat hi lo # int16_elements bs"
| "int16_elements _ = []"

definition Int16Array :: "byte list \<Rightarrow> js_error + int16 list" where
  "Int16Array rawBytes =
     (if length rawBytes mod 2 \<noteq> 0 then Inl RangeError
      else Inr (int16_elements rawBytes))"

text \<open>The loop \<open>for (i = 0; i < int16.length; i++) float32[i] = int16[i] / 32768.0\<close>.\<close>

fun to_float32 :: "int16 list \<Rightarrow> real list" where
  "to_float32 [] = []"
| "to_float32 (w # ws) = real_of_int (sint w) / 32768 # to_float32 ws"

definition decode_pcm :: "byte list \<Rightarrow> js_error + real list" where
  "decode_pcm rawBytes =
     (case Int16Array rawBytes of
        Inl e \<Rightarrow> Inl e
      | Inr int16 \<Rightarrow> Inr (to_float32 int16))"

section \<open>The classroom page: state\<close>

text \<open>
  One record holds what the page can read and write: the Svelte stores of
  \<open>stores/classroom.ts\<close> (\<open>classroomState\<close> to \<open>msgCounter\<close>), the local variables of
  the page component (\<open>pollInterval\<close> to \<open>isPlayingAudio\<close>), and the part of the browser the
  code acts on. Calls into the browser are recorded in \<open>fx\<close>, in program order.
  \<open>newContextState\<close> is the state in which the browser hands out a fresh
  \<open>AudioContext\<close> (suspended under an autoplay policy); \<open>pendingBlobs\<close> are the
  \<open>Blob.arrayBuffer()\<close> promises not resolved yet, and \<open>roomRequests\<close> the \<open>getRoom\<close>
  requests of the poll that have not been answered yet.
\<close>

record WebSocket =
  readyState :: nat

definition CONNECTING :: nat where "CONNECTING = 0"
definition OPEN :: nat where "OPEN = 1"
definition CLOSING :: nat where "CLOSING = 2"
definition CLOSED :: nat where "CLOSED = 3"

datatype context_state = Suspended | Running | Closed

record PipecatClient =
  classroomConfig :: "(string \<times> string) option"
  currentBotText :: string
  botTranscript :: string
  botResponseComplete :: nat
  botResponseInterrupted :: nat
  userTranscript :: "string \<times> bool"
  sessionId :: "string option"

datatype out_msg =
    Out_join string string playback_mode
  | Out_set_mode playback_mode
  | Out_text_message string
  | Out_request_token
  | Out_release_token
  | Out_pass_token "string option"
  | Out_hand_raise string
  | Out_hand_lower
  | Out_hand_acknowledge string
  | Out_hand_dismiss string
  | Out_reaction string string
  | Out_speaker_transcript string
  | Out_teacher_action string string
  | Out_request_topics

datatype effect =
    WsSend out_msg
  | WsClose
  | SetInterval nat
  | ClearInterval nat
  | AudioContextClose
  | AudioContextResume
  | SourceStart "real list"
  | PipecatConnect
  | PipecatDisconnect
  | PersistUserMode playback_mode
  | RefreshRooms
  | RefreshTeacherAccess
  | FetchRoom string

record ctrl =
  classroomState :: ClassroomState
  classroomRoom :: "ClassroomRoom option"
  classroomSelf :: "ClassroomUser option"
  classroomMessages :: "ClassroomMessage list"
  classroomWs :: "WebSocket option"
  classroomError :: string
  classroomTopics :: "string list"
  isHandRaised :: bool
  currentLessonTopic :: string
  msgCounter :: nat
  pollInterval :: "nat option"
  lobbyPollInterval :: "nat option"
  roomListPollInFlight :: bool
  teacherStatusPollInFlight :: bool
  speakerPipecat :: "PipecatClient option"
  speakerUnsubs :: nat
  speakerConnected :: bool
  speakerListening :: bool
  speakerError :: "string option"
  speakerBotText :: string
  speakerUserText :: string
  userName :: string
  userLanguage :: string
  userMode :: playback_mode
  speakerMode :: voice_mode
  audioContext :: "context_state option"
  audioQueue :: "real list list"
  isPlayingAudio :: bool
  newContextState :: context_state
  pendingBlobs :: "byte list list"
  roomRequests :: "string list"
  fx :: "effect list"

text \<open>The stores as \<open>stores/classroom.ts\<close> creates them and the component's initial values.\<close>

definition initial :: ctrl where
  "initial =
     \<lparr>classroomState = Lobby, classroomRoom = None, classroomSelf = None,
      classroomMessages = [], classroomWs = None, classroomError = '''',
      classroomTopics = [], isHandRaised = False, currentLessonTopic = '''',
      msgCounter = 0, pollInterval = None, lobbyPollInterval = None,
      roomListPollInFlight = False, teacherStatusPollInFlight = False,
      speakerPipecat = None, speakerUnsubs = 0, speakerConnected = False,
      speakerListening = False, speakerError = None, speakerBotText = '''',
      speakerUserText = '''', userName = ''User'', userLanguage = ''en'',
      userMode = Text_only, speakerMode = Text, audioContext = None, audioQueue = [],
      isPlayingAudio = False, newContextState = Suspended, pendingBlobs = [],
      roomRequests = [], fx = []\<rparr>"

definition emit :: "effect \<Rightarrow> ctrl \<Rightarrow> ctrl" where
  "emit e s = s\<lparr>fx := fx s @ [e]\<rparr>"

text \<open>\<open>ws && ws.readyState === WebSocket.OPEN\<close>, and \<open>ws.send\<close> under that guard.\<close>

definition ws_open :: "ctrl \<Rightarrow> bool" where
  "ws_open s = (case classroomWs s of None \<Rightarrow> False | Some ws \<Rightarrow> readyState ws = OPEN)"

section \<open>Derived stores\<close>

definition isSpeaker :: "ctrl \<Rightarrow> bool" where
  "isSpeaker s =
     (case classroomRoom s of
        None \<Rightarrow> False
      | Some r \<Rightarrow>
          (case classroomSelf s of
             None \<Rightarrow> False
           | Some u \<Rightarrow> speaker_id r = Some (user_id u)))"

definition isTeacher :: "ctrl \<Rightarrow> bool" where
  "isTeacher s =
     (case classroomRoom s of
        None \<Rightarrow> False
      | Some r \<Rightarrow>
          (case classroomSelf s of
             None \<Rightarrow> False
           | Some u \<Rightarrow> teacher_id r = Some (user_id u)))"

section \<open>Store actions\<close>

definition genMsgId :: "nat \<Rightarrow> ctrl \<Rightarrow> string" where
  "genMsgId now s = ''cm-'' @ show_nat now @ ''-'' @ show_nat (msgCounter s + 1)"

definition addClassroomMessage ::
  "nat \<Rightarrow> msg_role \<Rightarrow> string \<Rightarrow> string option \<Rightarrow> bool option \<Rightarrow> string option \<Rightarrow>
   ctrl \<Rightarrow> ctrl" where
  "addClassroomMessage now r c speakerName tr dbMessageId s =
     s\<lparr>msgCounter := msgCounter s + 1,
       classroomMessages := classroomMessages s @
         [\<lparr>msg_id = genMsgId now s, role = r, msg_speaker_name = speakerName,
           content = c, translated = Some (case tr of None \<Rightarrow> False | Some b \<Rightarrow> b),
           timestamp = now, streaming = None, reaction_counts = Some [],
           db_message_id = dbMessageId, interrupted = None\<rparr>]\<rparr>"

definition updateMessageReaction :: "message_ref \<Rightarrow> string \<Rightarrow> int \<Rightarrow> ctrl \<Rightarrow> ctrl" where
  "updateMessageReaction messageId emoji delta s =
     s\<lparr>classroomMessages := reaction_update_map messageId emoji delta (classroomMessages s)\<rparr>"

definition resetClassroom :: "ctrl \<Rightarrow> ctrl" where
  "resetClassroom s =
     (let s1 = s\<lparr>classroomState := Lobby, classroomRoom := None, classroomSelf := None,
                  classroomMessages := [], classroomError := '''', classroomTopics := [],
                  isHandRaised := False, currentLessonTopic := ''''\<rparr>;
          s2 = (case classroomWs s1 of
                  None \<Rightarrow> s1
                | Some ws \<Rightarrow> if readyState ws \<le> OPEN then emit WsClose s1 else s1)
      in s2\<lparr>classroomWs := None\<rparr>)"

section \<open>Listener audio playback\<close>

text \<open>
  A call that can throw after it has written to the state of the page gives an
  \<open>outcome\<close>: \<open>Inr s\<close> when it returns leaving the state \<open>s\<close>, and \<open>Inl (e, s)\<close>
  when it throws \<open>e\<close> leaving the state \<open>s\<close>. \<open>state_after\<close> is the state the event
  loop goes on with in either case.
\<close>

type_synonym outcome = "(js_error \<times> ctrl) + ctrl"

definition state_after :: "outcome \<Rightarrow> ctrl" where
  "state_after r = (case r of Inl (e, s) \<Rightarrow> s | Inr s \<Rightarrow> s)"

definition ensureAudioContext :: "ctrl \<Rightarrow> ctrl" where
  "ensureAudioContext s =
     (let s1 = (if audioContext s = None \<or> audioContext s = Some Closed
                then s\<lparr>audioContext := Some (newContextState s)\<rparr> else s)
      in if audioContext s1 = Some Suspended then emit AudioContextResume s1 else s1)"

text \<open>
  \<open>playNextChunk\<close>. With a suspended context it asks for a resume and returns; the
  retry runs when the promise resolves (\<open>resume_resolved\<close> below). Otherwise the head of
  the queue is handed to a buffer source and started; the next call comes from the source's
  \<open>onended\<close> (\<open>source_ended\<close> below). \<open>createBuffer\<close> throws a
  \<open>NotSupportedError\<close> for a chunk of no samples, after the chunk has left the queue; no
  source is started then and \<open>isPlayingAudio\<close> stays set. The exception leaves
  \<open>queueAudioChunk\<close> and the \<open>onmessage\<close> or \<open>onended\<close> callback uncaught; in the
  retry after a resume it is caught and logged.
\<close>

definition playNextChunk :: "ctrl \<Rightarrow> outcome" where
  "playNextChunk s =
     (case audioQueue s of
        [] \<Rightarrow> Inr (s\<lparr>isPlayingAudio := False\<rparr>)
      | chunk # rest \<Rightarrow>
          (let s1 = ensureAudioContext (s\<lparr>isPlayingAudio := True\<rparr>)
           in if audioContext s1 = Some Suspended then Inr (emit AudioContextResume s1)
              else if chunk = [] then Inl (NotSupportedError, s1\<lparr>audioQueue := rest\<rparr>)
              else Inr (emit (SourceStart chunk) (s1\<lparr>audioQueue := rest\<rparr>))))"

definition queueAudioChunk :: "byte list \<Rightarrow> ctrl \<Rightarrow> outcome" where
  "queueAudioChunk rawBytes s =
     (case decode_pcm rawBytes of
        Inl e \<Rightarrow> Inl (e, s)
      | Inr float32 \<Rightarrow>
          (let s1 = s\<lparr>audioQueue := audioQueue s @ [float32]\<rparr>
           in if \<not> isPlayingAudio s1 then playNextChunk s1 else Inr s1))"

definition stopAudioPlayback :: "ctrl \<Rightarrow> ctrl" where
  "stopAudioPlayback s = s\<lparr>audioQueue := [], isPlayingAudio := False\<rparr>"

definition source_ended :: "ctrl \<Rightarrow> ctrl" where
  "source_ended s = state_after (playNextChunk s)"

definition resume_resolved :: "ctrl \<Rightarrow> ctrl" where
  "resume_resolved s =
     state_after
       (playNextChunk
          (if audioContext s = Some Suspended then s\<lparr>audioContext := Some Running\<rparr> else s))"

section \<open>Speaker pipeline\<close>

definition disconnectSpeakerPipeline :: "ctrl \<Rightarrow> ctrl" where
  "disconnectSpeakerPipeline s =
     (let s1 = (if speakerPipecat s \<noteq> None
                then (emit PipecatDisconnect s)\<lparr>speakerPipecat := None\<rparr> else s)
      in s1\<lparr>speakerUnsubs := 0, speakerConnected := False, speakerListening := False,
             speakerError := None, speakerBotText := '''', speakerUserText := ''''\<rparr>)"

section \<open>Leaving a room\<close>

definition handleLeaveRoom :: "ctrl \<Rightarrow> ctrl" where
  "handleLeaveRoom s =
     (let s1 = (case pollInterval s of
                  None \<Rightarrow> s
                | Some t \<Rightarrow> (emit (ClearInterval t) s)\<lparr>pollInterval := None\<rparr>);
          s2 = stopAudioPlayback s1;
          s3 = (case audioContext s2 of
                  None \<Rightarrow> s2
                | Some c \<Rightarrow> (emit AudioContextClose s2)\<lparr>audioContext := None\<rparr>);
          s4 = disconnectSpeakerPipeline s3;
          s5 = resetClassroom s4
      in emit RefreshRooms s5)"

section \<open>Inbound messages of the room socket\<close>

text \<open>
  The payloads of the inbound message types, in the order of the \<open>switch\<close> of
  \<open>handleWsMessage\<close>. \<open>text\<close> of \<open>transcription\<close> and \<open>bot_response\<close> is a string
  (it becomes the \<open>content: string\<close> of a message); the fields the handler guards with
  \<open>||\<close> or \<open>??\<close> are optional. The welcome toast and the console output of the handler
  are presentation and are left out.
\<close>

record wire_message =
  w_id :: "string option"
  w_role :: string
  w_speaker_name :: "string option"
  w_content :: "string option"
  w_translated :: "bool option"
  w_timestamp :: "nat option"
  w_reaction_counts :: "(string \<times> int) list option"
  w_random :: string

datatype ws_msg =
    Joined ClassroomRoom ClassroomUser "wire_message list option"
  | Token_changed "string option" "string option"
  | Token_response bool
  | User_joined ClassroomUser
  | User_left string
  | Transcription string "string option" "string option"
  | Bot_response string "string option"
  | Bot_text "string option"
  | Bot_text_complete "string option" bool
  | Bot_audio_start
  | Bot_audio_end
  | Mode_changed string
  | Hand_raised HandRaise
  | Hand_lowered string
  | Hand_acknowledged HandRaise
  | Hand_dismissed HandRaise
  | Reaction_update message_ref string string
  | Topic_suggestions "string list option"
  | Lesson_topic_changed "string option"
  | Teacher_changed "string option"
  | Teacher_action_result
  | Kicked "string option"
  | Error_msg "string option"
  | Unknown string

definition parse_mode :: "string \<Rightarrow> playback_mode option" where
  "parse_mode m =
     (if m = ''text_only'' then Some Text_only
      else if m = ''text_and_audio'' then Some Text_and_audio else None)"

definition hydrate :: "nat \<Rightarrow> wire_message \<Rightarrow> ClassroomMessage" where
  "hydrate now m =
     \<lparr>msg_id = js_or (w_id m) (''msg-'' @ show_nat now @ ''-'' @ w_random m),
      role = (if w_role m = ''assistant'' then Assistant else User),
      msg_speaker_name = w_speaker_name m,
      content = js_or (w_content m) '''',
      translated = Some (w_translated m = Some True),
      timestamp = (case w_timestamp m of
                     None \<Rightarrow> now
                   | Some t \<Rightarrow> if t < 10 ^ 12 then t * 1000 else t),
      streaming = None,
      reaction_counts = Some (case w_reaction_counts m of None \<Rightarrow> [] | Some c \<Rightarrow> c),
      db_message_id = (if truthy (w_id m) then w_id m else None),
      interrupted = None\<rparr>"

definition sync_mode :: "string \<Rightarrow> ctrl \<Rightarrow> ctrl" where
  "sync_mode m s =
     (case parse_mode m of
        None \<Rightarrow> s
      | Some pm \<Rightarrow> emit (PersistUserMode pm) (s\<lparr>userMode := pm\<rparr>))"

definition on_joined ::
  "nat \<Rightarrow> ClassroomRoom \<Rightarrow> ClassroomUser \<Rightarrow> wire_message list option \<Rightarrow> ctrl \<Rightarrow> ctrl" where
  "on_joined now room you recent s =
     (let s1 = s\<lparr>classroomRoom := Some room, classroomSelf := Some you,
                  classroomMessages :=
                    (case recent of None \<Rightarrow> [] | Some ms \<Rightarrow> map (hydrate now) ms)\<rparr>;
          s2 = sync_mode (mode you) s1;
          s3 = (if name you \<noteq> '''' \<and> name you \<noteq> ''User'' \<and>
                   name you \<noteq> ''User-'' @ take 4 (user_id you)
                then s2\<lparr>userName := name you,
                        userLanguage :=
                          (if language you \<noteq> '''' then language you else userLanguage s2)\<rparr>
                else s2)
      in s3\<lparr>classroomState := Active\<rparr>)"

text \<open>
  \<open>token_changed\<close> writes two stores one after the other: first the room, then the
  self record. The state between the two writes is \<open>token_changed_room\<close>.
\<close>

definition token_changed_room :: "string option \<Rightarrow> string option \<Rightarrow> ctrl \<Rightarrow> ctrl" where
  "token_changed_room sid sname s =
     s\<lparr>classroomRoom :=
         (case classroomRoom s of
            None \<Rightarrow> None
          | Some r \<Rightarrow> Some (r\<lparr>speaker_id := sid, speaker_name := sname\<rparr>))\<rparr>"

definition token_changed_self :: "string option \<Rightarrow> ctrl \<Rightarrow> ctrl" where
  "token_changed_self sid s =
     s\<lparr>classroomSelf :=
         (case classroomSelf s of
            None \<Rightarrow> None
          | Some u \<Rightarrow> Some (u\<lparr>is_speaker := (Some (user_id u) = sid)\<rparr>))\<rparr>"

definition update_room :: "(ClassroomRoom \<Rightarrow> ClassroomRoom) \<Rightarrow> ctrl \<Rightarrow> ctrl" where
  "update_room f s = s\<lparr>classroomRoom := map_option f (classroomRoom s)\<rparr>"

definition update_self :: "(ClassroomUser \<Rightarrow> ClassroomUser) \<Rightarrow> ctrl \<Rightarrow> ctrl" where
  "update_self f s = s\<lparr>classroomSelf := map_option f (classroomSelf s)\<rparr>"

definition raises_of :: "ClassroomRoom \<Rightarrow> HandRaise list" where
  "raises_of r = (case hand_raises r of None \<Rightarrow> [] | Some hs \<Rightarrow> hs)"

definition add_raise :: "HandRaise \<Rightarrow> ClassroomRoom \<Rightarrow> ClassroomRoom" where
  "add_raise raise r =
     r\<lparr>hand_raises :=
         Some (if find (\<lambda>hr. hr_id hr = hr_id raise) (raises_of r) = None
               then raises_of r @ [raise] else raises_of r)\<rparr>"

definition lower_raises :: "string \<Rightarrow> ClassroomRoom \<Rightarrow> ClassroomRoom" where
  "lower_raises uid r =
     r\<lparr>hand_raises :=
         Some (filter (\<lambda>hr. \<not> (hr_user_id hr = uid \<and> status hr = Pending)) (raises_of r))\<rparr>"

text \<open>
  \<open>{ ...hr, ...data.raise }\<close>: the fields of the payload win; an optional field that the
  payload leaves out keeps the old value.
\<close>

definition merge_raise :: "HandRaise \<Rightarrow> HandRaise \<Rightarrow> HandRaise" where
  "merge_raise hr raise =
     raise\<lparr>question_preview :=
             (case question_preview raise of None \<Rightarrow> question_preview hr | Some q \<Rightarrow> Some q),
           resolved_at :=
             (case resolved_at raise of None \<Rightarrow> resolved_at hr | Some t \<Rightarrow> Some t)\<rparr>"

definition resolve_raise :: "HandRaise \<Rightarrow> ctrl \<Rightarrow> ctrl" where
  "resolve_raise raise s =
     (let s1 = update_room
                 (\<lambda>r. r\<lparr>hand_raises :=
                        Some (map (\<lambda>hr. if hr_id hr = hr_id raise then merge_raise hr raise
                                        else hr) (raises_of r))\<rparr>) s
      in if map_option user_id (classroomSelf s1) = Some (hr_user_id raise)
         then s1\<lparr>isHandRaised := False\<rparr> else s1)"

fun handleWsMessage :: "nat \<Rightarrow> ws_msg \<Rightarrow> ctrl \<Rightarrow> ctrl" where
  "handleWsMessage now (Joined room you recent) s = on_joined now room you recent s"
| "handleWsMessage now (Token_changed sid sname) s =
     token_changed_self sid (token_changed_room sid sname s)"
| "handleWsMessage now (Token_response granted) s =
     (if granted then update_self (\<lambda>u. u\<lparr>is_speaker := True\<rparr>) s else s)"
| "handleWsMessage now (User_joined u) s =
     update_room
       (\<lambda>r. if \<not> list_ex (\<lambda>v. user_id v = user_id u) (users r)
            then r\<lparr>users := users r @ [u], user_count := user_count r + 1\<rparr> else r) s"
| "handleWsMessage now (User_left uid) s =
     update_room
       (\<lambda>r. r\<lparr>users := filter (\<lambda>v. user_id v \<noteq> uid) (users r),
              user_count := max 0 (user_count r - 1)\<rparr>) s"
| "handleWsMessage now (Transcription text translated_text sname) s =
     addClassroomMessage now User (js_or translated_text text) sname
       (Some (is_translated text translated_text)) None s"
| "handleWsMessage now (Bot_response text translated_text) s =
     s\<lparr>classroomMessages := bot_response_update text translated_text now (classroomMessages s)\<rparr>"
| "handleWsMessage now (Bot_text text) s =
     s\<lparr>classroomMessages := bot_text_update text now (classroomMessages s),
       speakerBotText := js_or text ''''\<rparr>"
| "handleWsMessage now (Bot_text_complete text intr) s =
     s\<lparr>classroomMessages := bot_text_complete_update text intr now (classroomMessages s),
       speakerBotText := ''''\<rparr>"
| "handleWsMessage now Bot_audio_start s =
     (if userMode s = Text_and_audio \<and> \<not> isSpeaker s then ensureAudioContext s else s)"
| "handleWsMessage now Bot_audio_end s = s"
| "handleWsMessage now (Mode_changed m) s =
     (let s1 = update_self (\<lambda>u. u\<lparr>mode := m\<rparr>) s;
          s2 = sync_mode m s1
      in if parse_mode m = Some Text_only then stopAudioPlayback s2 else s2)"
| "handleWsMessage now (Hand_raised raise) s = update_room (add_raise raise) s"
| "handleWsMessage now (Hand_lowered uid) s =
     (let s1 = update_room (lower_raises uid) s
      in if map_option user_id (classroomSelf s1) = Some uid
         then s1\<lparr>isHandRaised := False\<rparr> else s1)"
| "handleWsMessage now (Hand_acknowledged raise) s = resolve_raise raise s"
| "handleWsMessage now (Hand_dismissed raise) s = resolve_raise raise s"
| "handleWsMessage now (Reaction_update mid emoji action) s =
     updateMessageReaction mid emoji (if action = ''add'' then 1 else - 1) s"
| "handleWsMessage now (Topic_suggestions ts) s =
     s\<lparr>classroomTopics := (case ts of None \<Rightarrow> [] | Some l \<Rightarrow> l)\<rparr>"
| "handleWsMessage now (Lesson_topic_changed t) s =
     update_room (\<lambda>r. r\<lparr>current_lesson_topic := (if truthy t then t else None)\<rparr>)
       (s\<lparr>currentLessonTopic := js_or t ''''\<rparr>)"
| "handleWsMessage now (Teacher_changed tid) s = update_room (\<lambda>r. r\<lparr>teacher_id := tid\<rparr>) s"
| "handleWsMessage now Teacher_action_result s = s"
| "handleWsMessage now (Kicked msg) s =
     handleLeaveRoom (s\<lparr>classroomError := js_or msg ''You were removed from the room''\<rparr>)"
| "handleWsMessage now (Error_msg msg) s = s\<lparr>classroomError := js_or msg ''Unknown error''\<rparr>"
| "handleWsMessage now (Unknown t) s = s"

section \<open>Frames of the room socket\<close>

text \<open>
  \<open>ws.onmessage\<close>: a binary frame is audio and is queued only for a listener in
  text-and-audio mode; a \<open>Blob\<close> is read asynchronously (the chunk is queued when its
  promise resolves, \<open>blob_resolved\<close>); a text frame that parses as JSON goes to
  \<open>handleWsMessage\<close>, any other string is ignored. An exception that leaves the handler
  is the \<open>Inl\<close> outcome; \<open>deliver\<close> is the event loop going on with the state the
  handler left.
\<close>

datatype ws_data =
    ArrayBufferData "byte list"
  | BlobData "byte list"
  | TextData "ws_msg option"

fun onmessage :: "nat \<Rightarrow> ws_data \<Rightarrow> ctrl \<Rightarrow> outcome" where
  "onmessage now (ArrayBufferData raw) s =
     (if userMode s = Text_and_audio \<and> \<not> isSpeaker s then queueAudioChunk raw s else Inr s)"
| "onmessage now (BlobData raw) s =
     Inr (if userMode s = Text_and_audio \<and> \<not> isSpeaker s
          then s\<lparr>pendingBlobs := pendingBlobs s @ [raw]\<rparr> else s)"
| "onmessage now (TextData None) s = Inr s"
| "onmessage now (TextData (Some m)) s = Inr (handleWsMessage now m s)"

definition blob_resolved :: "ctrl \<Rightarrow> outcome" where
  "blob_resolved s =
     (case pendingBlobs s of
        [] \<Rightarrow> Inr s
      | raw # rest \<Rightarrow> queueAudioChunk raw (s\<lparr>pendingBlobs := rest\<rparr>))"

definition deliver :: "nat \<Rightarrow> ws_data \<Rightarrow> ctrl \<Rightarrow> ctrl" where
  "deliver now d s = state_after (onmessage now d s)"

section \<open>User actions\<close>

definition ws_send :: "out_msg \<Rightarrow> ctrl \<Rightarrow> ctrl" where
  "ws_send m s = (if ws_open s then emit (WsSend m) s else s)"

definition handleSetPlaybackMode :: "playback_mode \<Rightarrow> ctrl \<Rightarrow> ctrl" where
  "handleSetPlaybackMode newMode s =
     (let s1 = emit (PersistUserMode newMode) (s\<lparr>userMode := newMode\<rparr>);
          s2 = (if newMode = Text_only then stopAudioPlayback s1 else s1)
      in ws_send (Out_set_mode newMode) s2)"

definition handleSendMessage :: "nat \<Rightarrow> string \<Rightarrow> ctrl \<Rightarrow> ctrl" where
  "handleSendMessage now text s =
     (if text = '''' \<or> \<not> isSpeaker s then s
      else ws_send (Out_text_message text)
             (addClassroomMessage now User text (Some (userName s)) None None s))"

definition handleRaiseHand :: "string option \<Rightarrow> ctrl \<Rightarrow> ctrl" where
  "handleRaiseHand question s =
     (if ws_open s
      then (emit (WsSend (Out_hand_raise (js_or question ''''))) s)\<lparr>isHandRaised := True\<rparr>
      else s)"

definition handleLowerHand :: "ctrl \<Rightarrow> ctrl" where
  "handleLowerHand s =
     (if ws_open s then (emit (WsSend Out_hand_lower) s)\<lparr>isHandRaised := False\<rparr> else s)"

text \<open>
  The hand button of \<open>ClassroomActive.svelte\<close>:
  \<open>isHandRaised ? dispatch('lowerHand') : dispatch('raiseHand', '')\<close>.
\<close>

definition hand_button_click :: "ctrl \<Rightarrow> ctrl" where
  "hand_button_click s =
     (if isHandRaised s then handleLowerHand s else handleRaiseHand (Some '''') s)"

section \<open>Joining and polling\<close>

text \<open>
  \<open>handleJoinRoom\<close> gets the outcome of \<open>new WebSocket(wsUrl)\<close> and the handle that
  \<open>setInterval\<close> returns. Every 3 seconds the timer runs \<open>poll_tick\<close>; the answer of
  \<open>getRoom\<close> arrives later (\<open>poll_resolved\<close>). The lobby timer runs \<open>lobby_tick\<close>
  every second and \<open>lobby_resolved\<close> is its \<open>finally\<close> block.
\<close>

definition error_message :: "js_error \<Rightarrow> string" where
  "error_message e =
     (case e of RangeError \<Rightarrow> ''RangeError'' | TypeError \<Rightarrow> ''TypeError''
      | SyntaxError \<Rightarrow> ''SyntaxError'' | NotSupportedError \<Rightarrow> ''NotSupportedError''
      | Error m \<Rightarrow> m)"

definition handleJoinRoom :: "js_error + WebSocket \<Rightarrow> nat \<Rightarrow> ctrl \<Rightarrow> ctrl" where
  "handleJoinRoom socket timer s =
     (let s1 = s\<lparr>classroomState := Joining, classroomError := ''''\<rparr>;
          s2 = (if userMode s1 = Text_and_audio then ensureAudioContext s1 else s1)
      in case socket of
           Inl e \<Rightarrow> s2\<lparr>classroomError := error_message e, classroomState := Failed\<rparr>
         | Inr ws \<Rightarrow>
             (emit (SetInterval timer) (s2\<lparr>classroomWs := Some ws\<rparr>))
               \<lparr>pollInterval := Some timer\<rparr>)"

text \<open>
  The callbacks that \<open>handleJoinRoom\<close> puts on the socket: \<open>onopen\<close> sends the join
  handshake (name, language and playback mode; the identifiers and the token it also
  carries are not part of this model), \<open>onerror\<close> shows the error state, and \<open>onclose\<close>
  takes an active page back to the lobby.
\<close>

definition ws_onopen :: "ctrl \<Rightarrow> ctrl" where
  "ws_onopen s =
     emit (WsSend (Out_join (userName s) (userLanguage s) (userMode s)))
       (s\<lparr>classroomWs := map_option (\<lambda>ws. ws\<lparr>readyState := OPEN\<rparr>) (classroomWs s)\<rparr>)"

definition ws_onerror :: "ctrl \<Rightarrow> ctrl" where
  "ws_onerror s =
     s\<lparr>classroomError := ''WebSocket connection error'', classroomState := Failed\<rparr>"

definition ws_onclose :: "ctrl \<Rightarrow> ctrl" where
  "ws_onclose s =
     (if classroomState s = Active
      then emit RefreshRooms
             ((disconnectSpeakerPipeline s)
                \<lparr>classroomState := Lobby, classroomRoom := None, classroomSelf := None,
                 classroomWs := None\<rparr>)
      else s)"

definition poll_tick :: "ctrl \<Rightarrow> ctrl" where
  "poll_tick s =
     (if classroomState s = Active then
        (case classroomRoom s of
           None \<Rightarrow> s
         | Some r \<Rightarrow> (emit (FetchRoom (room_id r)) s)\<lparr>roomRequests := roomRequests s @ [room_id r]\<rparr>)
      else s)"

definition poll_resolved :: "js_error + ClassroomRoom \<Rightarrow> ctrl \<Rightarrow> ctrl" where
  "poll_resolved answer s =
     (case roomRequests s of
        [] \<Rightarrow> s
      | q # rest \<Rightarrow>
          (case answer of
             Inl e \<Rightarrow> s\<lparr>roomRequests := rest\<rparr>
           | Inr updated \<Rightarrow> s\<lparr>roomRequests := rest, classroomRoom := Some updated\<rparr>))"

definition lobby_tick :: "ctrl \<Rightarrow> ctrl" where
  "lobby_tick s =
     (if classroomState s \<noteq> Lobby then s
      else if roomListPollInFlight s \<or> teacherStatusPollInFlight s then s
      else emit RefreshTeacherAccess
             (emit RefreshRooms
                (s\<lparr>roomListPollInFlight := True, teacherStatusPollInFlight := True\<rparr>)))"

definition lobby_resolved :: "ctrl \<Rightarrow> ctrl" where
  "lobby_resolved s = s\<lparr>roomListPollInFlight := False, teacherStatusPollInFlight := False\<rparr>"

section \<open>The voice bridge\<close>

text \<open>
  \<open>handleJsonMsg\<close> of \<open>services/pipecat.ts\<close> together with the subscribers that
  \<open>connectSpeakerPipeline\<close> installs on the client's stores. A Svelte \<open>writable\<close> runs
  its subscribers synchronously inside \<open>set\<close>: always for an object value, and for a
  number only when it differs from the stored one. The subscriber of \<open>botTranscript\<close>
  copies a non-empty text to \<open>speakerBotText\<close>; the subscribers of
  \<open>botResponseComplete\<close> and \<open>botResponseInterrupted\<close> run \<open>turn_finished\<close>; the
  subscriber of \<open>userTranscript\<close> runs \<open>user_spoke\<close>. A \<open>user_transcript\<close> message
  carries its text, the optional \<open>final\<close> flag (\<open>msg.final ?? true\<close>) and, as the third
  argument here, what the regular expression of the subscriber (an optional bracketed
  prefix, an optional speaker label, then the rest of the line) leaves of the text: the
  matching is the browser's and its result comes in with the message.
\<close>

datatype bridge_msg =
    Bridge_session_id "string option"
  | Bridge_bot_text "string option"
  | Bridge_bot_text_complete "string option" bool
  | Bridge_user_transcript "string option" "bool option" string
  | Bridge_other

definition set_botTranscript :: "string \<Rightarrow> PipecatClient \<Rightarrow> ctrl \<Rightarrow> ctrl" where
  "set_botTranscript t client s =
     (let s1 = s\<lparr>speakerPipecat := Some (client\<lparr>botTranscript := t\<rparr>)\<rparr>
      in if t \<noteq> '''' then s1\<lparr>speakerBotText := t\<rparr> else s1)"

definition turn_finished :: "nat \<Rightarrow> ctrl \<Rightarrow> ctrl" where
  "turn_finished ts s =
     (if ts \<noteq> 0 \<and> speakerBotText s \<noteq> ''''
      then (addClassroomMessage ts Assistant (speakerBotText s) (Some ''Mira'') None None s)
             \<lparr>speakerBotText := ''''\<rparr>
      else s)"

definition user_spoke :: "nat \<Rightarrow> string \<Rightarrow> bool \<Rightarrow> string \<Rightarrow> ctrl \<Rightarrow> ctrl" where
  "user_spoke now t final cleanText s =
     (if t = '''' then s
      else if final
      then (ws_send (Out_speaker_transcript cleanText)
              (addClassroomMessage now User cleanText (Some (userName s)) None None
                 (s\<lparr>speakerUserText := t\<rparr>)))
             \<lparr>speakerUserText := ''''\<rparr>
      else s\<lparr>speakerUserText := t\<rparr>)"

definition handleJsonMsg :: "nat \<Rightarrow> bridge_msg \<Rightarrow> ctrl \<Rightarrow> ctrl" where
  "handleJsonMsg now msg s =
     (case speakerPipecat s of
        None \<Rightarrow> s
      | Some client \<Rightarrow>
          (case msg of
             Bridge_session_id sid \<Rightarrow>
               (if truthy sid then s\<lparr>speakerPipecat := Some (client\<lparr>sessionId := sid\<rparr>)\<rparr>
                else s)
           | Bridge_bot_text text \<Rightarrow>
               (if truthy text
                then (let c1 = client\<lparr>currentBotText := currentBotText client @ js_or text ''''\<rparr>
                      in set_botTranscript (currentBotText c1) c1 s)
                else s)
           | Bridge_bot_text_complete text intr \<Rightarrow>
               (let c1 = client\<lparr>currentBotText := js_or text ''''\<rparr>;
                    s1 = set_botTranscript (currentBotText c1) c1 s;
                    c2 = c1\<lparr>botTranscript := currentBotText c1\<rparr>;
                    old = (if intr then botResponseInterrupted c2 else botResponseComplete c2);
                    c3 = (if intr then c2\<lparr>botResponseInterrupted := now\<rparr>
                          else c2\<lparr>botResponseComplete := now\<rparr>);
                    s2 = (if now \<noteq> old
                          then turn_finished now (s1\<lparr>speakerPipecat := Some c3\<rparr>) else s1)
                in s2\<lparr>speakerPipecat :=
                        Some ((if now \<noteq> old then c3 else c2)\<lparr>currentBotText := ''''\<rparr>)\<rparr>)
           | Bridge_user_transcript text final cleanText \<Rightarrow>
               (if truthy text
                then (let fin = (case final of None \<Rightarrow> True | Some b \<Rightarrow> b);
                          c1 = client\<lparr>userTranscript := (js_or text '''', fin)\<rparr>
                      in user_spoke now (js_or text '''') fin cleanText
                           (s\<lparr>speakerPipecat := Some c1\<rparr>))
                else s)
           | Bridge_other \<Rightarrow> s))"

section \<open>Speaker mode and the reactive blocks\<close>

text \<open>
  \<open>handleToggleMode\<close>, \<open>connectSpeakerPipeline\<close> up to its \<open>await\<close> (a new client with
  the room and speaker identifiers, seven more subscriptions, each subscriber run once with
  the initial value of its store) and its \<open>catch\<close> block, and the three reactive blocks
  of the page. Svelte runs the reactive blocks of a component in dependency order, a block
  that assigns a variable before the blocks that read it: the block that resets
  \<open>speakerMode\<close> comes first, then the one that connects, then the one that disconnects.
  A block runs only when a value it reads was written since the last run; the three flags
  of \<open>react\<close> say which blocks the scheduler runs. The changes of the client's
  \<open>connected\<close>, \<open>listening\<close> and \<open>error\<close> stores after the connection is up are not part
  of this model.
\<close>

definition handleToggleMode :: "voice_mode \<Rightarrow> ctrl \<Rightarrow> ctrl" where
  "handleToggleMode newMode s = s\<lparr>speakerMode := newMode\<rparr>"

definition new_client :: "string \<Rightarrow> string \<Rightarrow> PipecatClient" where
  "new_client roomId selfId =
     \<lparr>classroomConfig = Some (roomId, selfId), currentBotText = '''', botTranscript = '''',
      botResponseComplete = 0, botResponseInterrupted = 0, userTranscript = ('''', False),
      sessionId = None\<rparr>"

definition connectSpeakerPipeline :: "ctrl \<Rightarrow> ctrl" where
  "connectSpeakerPipeline s =
     (if speakerPipecat s \<noteq> None then s
      else case classroomRoom s of
             None \<Rightarrow> s
           | Some r \<Rightarrow>
               (case classroomSelf s of
                  None \<Rightarrow> s
                | Some u \<Rightarrow>
                    if room_id r = '''' \<or> user_id u = '''' then s
                    else emit PipecatConnect
                           (s\<lparr>speakerPipecat := Some (new_client (room_id r) (user_id u)),
                              speakerUnsubs := speakerUnsubs s + 7, speakerConnected := False,
                              speakerListening := False, speakerError := None\<rparr>)))"

definition connect_failed :: "string option \<Rightarrow> ctrl \<Rightarrow> ctrl" where
  "connect_failed message s =
     disconnectSpeakerPipeline
       (s\<lparr>speakerError :=
            Some (js_or message ''Voice connection failed. Try switching to text mode.'')\<rparr>)"

definition react :: "bool \<Rightarrow> bool \<Rightarrow> bool \<Rightarrow> ctrl \<Rightarrow> ctrl" where
  "react resets connects disconnects s =
     (let s1 = (if resets \<and> \<not> isSpeaker s then s\<lparr>speakerMode := Text\<rparr> else s);
          s2 = (if connects \<and> isSpeaker s1 \<and> classroomState s1 = Active \<and>
                   speakerMode s1 = Voice \<and> speakerPipecat s1 = None
                then connectSpeakerPipeline s1 else s1)
      in if disconnects \<and> (\<not> isSpeaker s2 \<or> speakerMode s2 = Text) \<and> speakerPipecat s2 \<noteq> None
         then disconnectSpeakerPipeline s2 else s2)"

section \<open>Inputs of the page\<close>

text \<open>
  Everything that can happen to the page, one input at a time (the browser runs one
  callback to its end before the next): a frame of the room socket, the callbacks of the
  audio pipeline, a message of the voice bridge, the user's actions, the two timers, and a
  run of the reactive blocks (\<open>Reactive\<close>), which Svelte schedules after an input that
  changed a value they read, and the failure of the voice bridge to connect.
  \<open>Add_message\<close> is a call of \<open>addClassroomMessage\<close> from local code. Each input comes
  with the value of \<open>Date.now()\<close> at that moment.
\<close>

datatype input =
    Frame ws_data
  | Blob_resolved
  | Source_ended
  | Resume_resolved
  | Bridge bridge_msg
  | Add_message msg_role string "string option" "bool option" "string option"
  | Set_playback_mode playback_mode
  | Send_message string
  | Raise_hand "string option"
  | Lower_hand
  | Hand_button
  | Leave
  | Join "js_error + WebSocket" nat
  | Socket_open
  | Socket_error
  | Socket_close
  | Poll_tick
  | Poll_resolved "js_error + ClassroomRoom"
  | Lobby_tick
  | Lobby_resolved
  | Toggle_mode voice_mode
  | Reactive bool bool bool
  | Connect_failed "string option"

fun step :: "nat \<Rightarrow> input \<Rightarrow> ctrl \<Rightarrow> ctrl" where
  "step now (Frame d) s = deliver now d s"
| "step now Blob_resolved s = state_after (blob_resolved s)"
| "step now Source_ended s = source_ended s"
| "step now Resume_resolved s = resume_resolved s"
| "step now (Bridge m) s = handleJsonMsg now m s"
| "step now (Add_message r c sname tr db) s = addClassroomMessage now r c sname tr db s"
| "step now (Set_playback_mode m) s = handleSetPlaybackMode m s"
| "step now (Send_message text) s = handleSendMessage now text s"
| "step now (Raise_hand q) s = handleRaiseHand q s"
| "step now Lower_hand s = handleLowerHand s"
| "step now Hand_button s = hand_button_click s"
| "step now Leave s = handleLeaveRoom s"
| "step now (Join socket timer) s = handleJoinRoom socket timer s"
| "step now Socket_open s = ws_onopen s"
| "step now Socket_error s = ws_onerror s"
| "step now Socket_close s = ws_onclose s"
| "step now Poll_tick s = poll_tick s"
| "step now (Poll_resolved answer) s = poll_resolved answer s"
| "step now Lobby_tick s = lobby_tick s"
| "step now Lobby_resolved s = lobby_resolved s"
| "step now (Toggle_mode m) s = handleToggleMode m s"
| "step now (Reactive resets connects disconnects) s = react resets connects disconnects s"
| "step now (Connect_failed message) s = connect_failed message s"

fun run :: "(nat \<times> input) list \<Rightarrow> ctrl \<Rightarrow> ctrl" where
  "run [] s = s"
| "run ((now, i) # rest) s = run rest (step now i s)"

abbreviation Msg :: "ws_msg \<Rightarrow> input" where
  "Msg m \<equiv> Frame (TextData (Some m))"

text \<open>
  Inputs that put a whole new log in place (\<open>joined\<close> hydrates it from the server,
  leaving and \<open>kicked\<close> clear it), and inputs that append a finished message through
  \<open>addClassroomMessage\<close>.
\<close>

fun replaces_log :: "input \<Rightarrow> bool" where
  "replaces_log (Frame (TextData (Some (Joined room you recent)))) = True"
| "replaces_log (Frame (TextData (Some (Kicked msg)))) = True"
| "replaces_log Leave = True"
| "replaces_log i = False"

fun appends_message :: "input \<Rightarrow> bool" where
  "appends_message (Frame (TextData (Some (Transcription text translated_text sname)))) = True"
| "appends_message (Add_message r c sname tr db) = True"
| "appends_message (Send_message text) = True"
| "appends_message (Bridge (Bridge_bot_text_complete text intr)) = True"
| "appends_message (Bridge (Bridge_user_transcript text final cleanText)) = True"
| "appends_message i = False"

text \<open>
  The part of a log that no later event writes: everything but a tail that is still
  streaming. \<open>strip\<close> forgets the reaction counts, the only field that
  \<open>updateMessageReaction\<close> changes.
\<close>

definition fixed_part :: "ClassroomMessage list \<Rightarrow> ClassroomMessage list" where
  "fixed_part msgs = (if last_streaming msgs then butlast msgs else msgs)"

definition strip :: "ClassroomMessage \<Rightarrow> ClassroomMessage" where
  "strip m = m\<lparr>reaction_counts := None\<rparr>"

definition flagged :: "ClassroomMessage \<Rightarrow> bool" where
  "flagged m = (streaming m = Some True)"

definition stable :: "ClassroomMessage list \<Rightarrow> ClassroomMessage list \<Rightarrow> bool" where
  "stable old new = prefix (map strip (fixed_part old)) (map strip (fixed_part new))"

definition tail_only :: "ClassroomMessage list \<Rightarrow> bool" where
  "tail_only msgs = list_all (\<lambda>m. \<not> flagged m) (fixed_part msgs)"

text \<open>
  A run in which every message appended through \<open>addClassroomMessage\<close> arrives while the
  tail of the log is not a streaming reply.
\<close>

fun appends_after_reply :: "(nat \<times> input) list \<Rightarrow> ctrl \<Rightarrow> bool" where
  "appends_after_reply [] s = True"
| "appends_after_reply ((t, i) # rest) s =
     ((appends_message i \<longrightarrow> \<not> last_streaming (classroomMessages s)) \<and>
      appends_after_reply rest (step t i s))"

text \<open>
  A stream of \<open>bot_text\<close> frames, each with its arrival time and its optional \<open>text\<close>,
  and the text that the fragments spell (\<open>data.text || ''\<close> for each, in order).
\<close>

definition bot_text_inputs :: "(nat \<times> string option) list \<Rightarrow> (nat \<times> input) list" where
  "bot_text_inputs frags = map (\<lambda>(t, f). (t, Msg (Bot_text f))) frags"

definition stream_text :: "(nat \<times> string option) list \<Rightarrow> string" where
  "stream_text frags = concat (map (\<lambda>(t, f). js_or f '''') frags)"

section \<open>Example states\<close>

text \<open>
  A listener who has joined a room: the page joins, the socket opens, the server answers
  with \<open>joined\<close>. The closed instances below start from these states.
\<close>

definition demo_user :: ClassroomUser where
  "demo_user =
     \<lparr>user_id = ''u1'', name = ''Ann'', language = ''en'', mode = ''text_and_audio'',
      is_speaker = False, is_teacher = None\<rparr>"

definition demo_room :: ClassroomRoom where
  "demo_room =
     \<lparr>room_id = ''room-1'', room_name = ''Algebra'', created_at = 0, user_count = 1,
      users = [demo_user], speaker_id = Some ''u2'', speaker_name = Some ''Bob'',
      token_queue = [], hand_raises = Some [], active_session_id = None, topic = None,
      teacher_id = Some ''u2'', current_lesson_topic = None, room_type = Teacher_driven,
      curriculum_chapter_id = None, curriculum_section_id = None\<rparr>"

definition demo_active :: ctrl where
  "demo_active =
     run [(0, Join (Inr \<lparr>readyState = CONNECTING\<rparr>) 7), (1, Socket_open),
          (2, Msg (Joined demo_room demo_user None))] initial"

definition demo_raise :: "string \<Rightarrow> string \<Rightarrow> HandRaise" where
  "demo_raise i u =
     \<lparr>hr_id = i, hr_user_id = u, hr_user_name = ''Ann'', question_preview = None,
      status = Pending, raised_at = 5, resolved_at = None\<rparr>"

section \<open>Pending hand raises\<close>

text \<open>
  The pending hand-raise records that the room state holds for a user, as the panel of
  \<open>ClassroomActive.svelte\<close> filters them (\<open>hr.status === 'pending'\<close>), and the users
  who have one. \<open>raise_after_lower\<close> says of a run of \<open>hand_raised\<close> and
  \<open>hand_lowered\<close> events that every \<open>hand_raised\<close> arrives while the room state holds
  no pending record of its user.
\<close>

definition all_raises :: "ctrl \<Rightarrow> HandRaise list" where
  "all_raises s = (case classroomRoom s of None \<Rightarrow> [] | Some r \<Rightarrow> raises_of r)"

definition pending_of :: "string \<Rightarrow> ctrl \<Rightarrow> HandRaise list" where
  "pending_of u s = filter (\<lambda>hr. hr_user_id hr = u \<and> status hr = Pending) (all_raises s)"

definition pending_users :: "ctrl \<Rightarrow> string list" where
  "pending_users s = map hr_user_id (filter (\<lambda>hr. status hr = Pending) (all_raises s))"

fun raise_after_lower :: "(nat \<times> input) list \<Rightarrow> ctrl \<Rightarrow> bool" where
  "raise_after_lower [] s = True"
| "raise_after_lower ((t, Frame (TextData (Some (Hand_raised raise)))) # rest) s =
     (hr_user_id raise \<notin> set (pending_users s) \<and>
      raise_after_lower rest (step t (Msg (Hand_raised raise)) s))"
| "raise_after_lower ((t, Frame (TextData (Some (Hand_lowered u)))) # rest) s =
     raise_after_lower rest (step t (Msg (Hand_lowered u)) s)"
| "raise_after_lower ((t, i) # rest) s = False"

section \<open>Playback calls\<close>

text \<open>
  The chunks handed to \<open>source.start()\<close> so far, oldest first, and the inputs after which
  the local playback mode can be text-and-audio again: the user's own switch, a
  \<open>mode_changed\<close> of the server and a \<open>joined\<close> that carry that mode.
\<close>

fun started :: "effect list \<Rightarrow> real list list" where
  "started [] = []"
| "started (SourceStart chunk # es) = chunk # started es"
| "started (e # es) = started es"

text \<open>The calls of \<open>setInterval\<close> and \<open>clearInterval\<close> for the room poll, in order.\<close>

fun timer_calls :: "effect list \<Rightarrow> effect list" where
  "timer_calls [] = []"
| "timer_calls (SetInterval t # es) = SetInterval t # timer_calls es"
| "timer_calls (ClearInterval t # es) = ClearInterval t # timer_calls es"
| "timer_calls (e # es) = timer_calls es"

fun keeps_text_only :: "input \<Rightarrow> bool" where
  "keeps_text_only (Set_playback_mode m) = (m = Text_only)"
| "keeps_text_only (Frame (TextData (Some (Mode_changed m)))) =
     (parse_mode m \<noteq> Some Text_and_audio)"
| "keeps_text_only (Frame (TextData (Some (Joined room you recent)))) =
     (parse_mode (mode you) \<noteq> Some Text_and_audio)"
| "keeps_text_only i = True"

definition quiet :: "ctrl \<Rightarrow> bool" where
  "quiet s = (userMode s = Text_only \<and> audioQueue s = [] \<and> pendingBlobs s = [])"

section \<open>REST wrappers\<close>

text \<open>
  The wrappers of \<open>src/lib/apis/classroom/index.ts\<close>, from the point where \<open>fetch\<close> has
  answered. A response has the \<open>ok\<close> flag, the status text and a body; \<open>body = None\<close> is
  a body that is not JSON, for which \<open>res.json()\<close> rejects. A parsed body is a JSON value
  (a number is known by whether it is zero and by the text that JavaScript prints for
  it). Reading a property of \<open>null\<close> throws a \<open>TypeError\<close>;
  reading one of any other value that does not have it gives \<open>undefined\<close>, the \<open>None\<close>
  of \<open>get_prop\<close>. \<open>js_truthy\<close> is JavaScript's truthiness and \<open>js_string\<close> the
  conversion that \<open>new Error(value)\<close> applies to its message.
\<close>

datatype json =
    JNull
  | JBool bool
  | JNum bool string
  | JStr string
  | JArr "json list"
  | JObj "(string \<times> json) list"

record response =
  ok :: bool
  statusText :: string
  body :: "json option"

definition get_prop :: "string \<Rightarrow> json \<Rightarrow> js_error + json option" where
  "get_prop k v =
     (case v of
        JNull \<Rightarrow> Inl TypeError
      | JObj kvs \<Rightarrow> Inr (map_of kvs k)
      | _ \<Rightarrow> Inr None)"

fun js_truthy :: "json option \<Rightarrow> bool" where
  "js_truthy None = False"
| "js_truthy (Some JNull) = False"
| "js_truthy (Some (JBool b)) = b"
| "js_truthy (Some (JNum zero printed)) = (\<not> zero)"
| "js_truthy (Some (JStr t)) = (t \<noteq> [])"
| "js_truthy (Some (JArr xs)) = True"
| "js_truthy (Some (JObj kvs)) = True"

fun join_commas :: "string list \<Rightarrow> string" where
  "join_commas [] = []"
| "join_commas [x] = x"
| "join_commas (x # y # ys) = x @ '','' @ join_commas (y # ys)"

fun js_string :: "json \<Rightarrow> string" where
  "js_string JNull = ''null''"
| "js_string (JBool b) = (if b then ''true'' else ''false'')"
| "js_string (JNum zero printed) = printed"
| "js_string (JStr t) = t"
| "js_string (JArr xs) =
     join_commas (map (\<lambda>x. if x = JNull then [] else js_string x) xs)"
| "js_string (JObj kvs) = ''[object Object]''"

text \<open>
  The block every room, token and teacher wrapper runs on a response that is not ok:
  \<open>const err = await res.json().catch(() => ({ detail: res.statusText }));
  throw new Error(err.detail || fallback)\<close>. The result is the error thrown.
\<close>

definition throw_detail :: "string \<Rightarrow> response \<Rightarrow> js_error" where
  "throw_detail fallback res =
     (let err = (case body res of
                   None \<Rightarrow> JObj [(''detail'', JStr (statusText res))]
                 | Some v \<Rightarrow> v)
      in case get_prop ''detail'' err of
           Inl e \<Rightarrow> e
         | Inr d \<Rightarrow> if js_truthy d then Error (js_string (the d)) else Error fallback)"

text \<open>\<open>return res.json()\<close>, and \<open>const data = await res.json(); return data.k || []\<close>.\<close>

definition res_json :: "response \<Rightarrow> js_error + json" where
  "res_json res = (case body res of None \<Rightarrow> Inl SyntaxError | Some v \<Rightarrow> Inr v)"

definition field_or_empty :: "string \<Rightarrow> response \<Rightarrow> js_error + json" where
  "field_or_empty k res =
     (case res_json res of
        Inl e \<Rightarrow> Inl e
      | Inr data \<Rightarrow>
          (case get_prop k data of
             Inl e \<Rightarrow> Inl e
           | Inr v \<Rightarrow> Inr (if js_truthy v then the v else JArr [])))"

definition createRoom :: "response \<Rightarrow> js_error + json" where
  "createRoom res =
     (if \<not> ok res then Inl (throw_detail ''Failed to create room'' res) else res_json res)"

definition listRooms :: "response \<Rightarrow> js_error + json" where
  "listRooms res =
     (if \<not> ok res then Inl (throw_detail ''Failed to list rooms'' res)
      else field_or_empty ''rooms'' res)"

definition getRoom :: "response \<Rightarrow> js_error + json" where
  "getRoom res =
     (if \<not> ok res then Inl (throw_detail ''Room not found'' res) else res_json res)"

definition updateRoom :: "response \<Rightarrow> js_error + json" where
  "updateRoom res =
     (if \<not> ok res then Inl (throw_detail ''Failed to update room'' res) else res_json res)"

definition listRoomMembers :: "response \<Rightarrow> js_error + json" where
  "listRoomMembers res =
     (if \<not> ok res then Inl (throw_detail ''Failed to list members'' res) else res_json res)"

text \<open>\<open>deleteRoom\<close> returns nothing: its result on success is \<open>None\<close>.\<close>

definition deleteRoom :: "response \<Rightarrow> js_error + json option" where
  "deleteRoom res =
     (if \<not> ok res then Inl (throw_detail ''Failed to delete room'' res) else Inr None)"

definition manageToken :: "response \<Rightarrow> js_error + json" where
  "manageToken res =
     (if \<not> ok res then Inl (throw_detail ''Token action failed'' res) else res_json res)"

definition getTeacherStatus :: "response \<Rightarrow> js_error + json" where
  "getTeacherStatus res =
     (if \<not> ok res then Inl (throw_detail ''Failed to get teacher status'' res)
      else res_json res)"

definition requestTeacherRole :: "response \<Rightarrow> js_error + json" where
  "requestTeacherRole res =
     (if \<not> ok res then Inl (throw_detail ''Failed to request teacher role'' res)
      else res_json res)"

definition listTeacherRoleRequests :: "response \<Rightarrow> js_error + json" where
  "listTeacherRoleRequests res =
     (if \<not> ok res then Inl (throw_detail ''Failed to list teacher requests'' res)
      else field_or_empty ''requests'' res)"

definition reviewTeacherRoleRequest :: "bool \<Rightarrow> response \<Rightarrow> js_error + json" where
  "reviewTeacherRoleRequest approved res =
     (let action = (if approved then ''approve'' else ''reject'')
      in if \<not> ok res then Inl (throw_detail (''Failed to '' @ action @ '' request'') res)
         else res_json res)"

definition listSessions :: "response \<Rightarrow> js_error + json" where
  "listSessions res = (if \<not> ok res then Inr (JArr []) else field_or_empty ''sessions'' res)"

definition getSession :: "response \<Rightarrow> js_error + json" where
  "getSession res = (if \<not> ok res then Inl (Error ''Session not found'') else res_json res)"

definition getSessionSummary :: "response \<Rightarrow> js_error + json" where
  "getSessionSummary res =
     (if \<not> ok res then Inl (Error ''Failed to get session summary'') else res_json res)"

definition getDashboard :: "response \<Rightarrow> js_error + json" where
  "getDashboard res =
     (if \<not> ok res then Inl (Error ''Failed to fetch dashboard'') else res_json res)"

definition listCurriculumFiles :: "response \<Rightarrow> js_error + json" where
  "listCurriculumFiles res =
     (if \<not> ok res then Inr (JObj [(''files'', JArr []), (''available'', JBool False)])
      else res_json res)"

definition getCurriculumTopics :: "response \<Rightarrow> js_error + json" where
  "getCurriculumTopics res =
     (if \<not> ok res then Inr (JArr []) else field_or_empty ''tree'' res)"

definition searchCurriculumConcepts :: "response \<Rightarrow> js_error + json" where
  "searchCurriculumConcepts res =
     (if \<not> ok res then Inr (JArr []) else field_or_empty ''results'' res)"

definition getCurriculumContext :: "response \<Rightarrow> js_error + json" where
  "getCurriculumContext res = (if \<not> ok res then Inr JNull else res_json res)"

text \<open>
  The wrappers that report the \<open>detail\<close> of the backend, each with its fallback message,
  and the ones that return the parsed body as it is.
\<close>

definition detail_wrappers :: "(string \<times> (response \<Rightarrow> js_error + json)) list" where
  "detail_wrappers =
     [(''Failed to create room'', createRoom),
      (''Failed to list rooms'', listRooms),
      (''Room not found'', getRoom),
      (''Failed to update room'', updateRoom),
      (''Failed to list members'', listRoomMembers),
      (''Token action failed'', manageToken),
      (''Failed to get teacher status'', getTeacherStatus),
      (''Failed to request teacher role'', requestTeacherRole),
      (''Failed to list teacher requests'', listTeacherRoleRequests),
      (''Failed to approve request'', reviewTeacherRoleRequest True),
      (''Failed to reject request'', reviewTeacherRoleRequest False)]"

definition body_wrappers :: "(response \<Rightarrow> js_error + json) list" where
  "body_wrappers =
     [createRoom, getRoom, updateRoom, listRoomMembers, manageToken, getTeacherStatus,
      requestTeacherRole, reviewTeacherRoleRequest True, reviewTeacherRoleRequest False,
      getSession, getSessionSummary, getDashboard, listCurriculumFiles, getCurriculumContext]"

definition demo_failure :: "json option \<Rightarrow> response" where
  "demo_failure b = \<lparr>ok = False, statusText = ''Bad Gateway'', body = b\<rparr>"

definition field_wrappers :: "(string \<times> (response \<Rightarrow> js_error + json)) list" where
  "field_wrappers =
     [(''rooms'', listRooms), (''requests'', listTeacherRoleRequests),
      (''sessions'', listSessions), (''tree'', getCurriculumTopics),
      (''results'', searchCurriculumConcepts)]"

section \<open>The message log: what an event can write\<close>

lemma last_streaming_Nil [simp]: "\<not> last_streaming []"
  by (simp add: last_streaming_def)

lemma last_streaming_snoc [simp]:
  "last_streaming (ms @ [m]) = (role m = Assistant \<and> streaming m = Some True)"
  by (simp add: last_streaming_def)

lemma last_streaming_split: "last_streaming msgs \<Longrightarrow> msgs = butlast msgs @ [last msgs]"
  by (simp add: last_streaming_def)

lemma fixed_part_Nil [simp]: "fixed_part [] = []"
  by (simp add: fixed_part_def)

lemma fixed_part_snoc:
  "fixed_part (ms @ [m]) = (if role m = Assistant \<and> streaming m = Some True then ms else ms @ [m])"
  by (simp add: fixed_part_def)

lemma fixed_part_prefix: "prefix (fixed_part msgs) msgs"
  by (simp add: fixed_part_def prefix_def) (metis append_butlast_last_id append_Nil2 butlast.simps(1))

lemma stable_refl: "stable msgs msgs"
  by (simp add: stable_def)

lemma stable_trans: "stable a b \<Longrightarrow> stable b c \<Longrightarrow> stable a c"
  unfolding stable_def by (rule prefix_order.trans)

lemma stable_snoc_fixed:
  "\<not> (role m = Assistant \<and> streaming m = Some True) \<Longrightarrow> stable msgs (msgs @ [m])"
proof -
  assume "\<not> (role m = Assistant \<and> streaming m = Some True)"
  then have "fixed_part (msgs @ [m]) = msgs @ [m]" by (simp add: fixed_part_snoc)
  moreover have "prefix (map strip (fixed_part msgs)) (map strip (msgs @ [m]))"
    using fixed_part_prefix [of msgs] by (metis map_mono_prefix prefix_order.trans prefixI)
  ultimately show ?thesis by (simp add: stable_def)
qed

lemma stable_snoc_streaming:
  "\<not> last_streaming msgs \<Longrightarrow> role m = Assistant \<Longrightarrow> streaming m = Some True \<Longrightarrow>
   stable msgs (msgs @ [m])"
  by (simp add: stable_def fixed_part_snoc) (simp add: fixed_part_def)

lemma stable_replace_tail: "last_streaming msgs \<Longrightarrow> stable msgs (butlast msgs @ [m])"
proof -
  assume "last_streaming msgs"
  then have "fixed_part msgs = butlast msgs" by (simp add: fixed_part_def)
  moreover have "prefix (butlast msgs) (fixed_part (butlast msgs @ [m]))"
    by (simp add: fixed_part_snoc)
  ultimately show ?thesis by (simp add: stable_def map_mono_prefix)
qed

lemma stable_bot_text: "stable msgs (bot_text_update text now msgs)"
  by (simp add: bot_text_update_def stable_replace_tail stable_snoc_streaming)

lemma stable_bot_text_complete: "stable msgs (bot_text_complete_update text intr now msgs)"
  by (simp add: bot_text_complete_update_def stable_replace_tail stable_snoc_fixed stable_refl)

lemma stable_bot_response: "stable msgs (bot_response_update text tt now msgs)"
  by (simp add: bot_response_update_def stable_replace_tail stable_snoc_fixed)

lemma last_streaming_map:
  assumes "\<And>m. role (f m) = role m" and "\<And>m. streaming (f m) = streaming m"
  shows "last_streaming (map f msgs) = last_streaming msgs"
  by (cases msgs rule: rev_cases) (simp_all add: assms)

lemma stable_reaction: "stable msgs (reaction_update_map mid emoji delta msgs)"
proof -
  let ?f = "\<lambda>m. if refers_to mid m
                 then m\<lparr>reaction_counts := Some (bump_reaction emoji delta (reaction_counts m))\<rparr>
                 else m"
  have ls: "last_streaming (map ?f msgs) = last_streaming msgs"
    by (rule last_streaming_map) simp_all
  have s: "strip (?f m) = strip m" for m by (simp add: strip_def)
  have "map strip (fixed_part (map ?f msgs)) = map strip (fixed_part msgs)"
    using s by (simp add: fixed_part_def ls map_butlast [symmetric])
  then show ?thesis by (simp add: stable_def reaction_update_map_def)
qed

lemma stable_nth:
  assumes "stable old new" and "i < length (fixed_part old)"
  shows "i < length new \<and> strip (new ! i) = strip (old ! i)"
proof -
  from assms(1) obtain rest where r: "map strip (fixed_part new) = map strip (fixed_part old) @ rest"
    by (auto simp: stable_def prefix_def)
  from fixed_part_prefix [of new] obtain tl' where n: "new = fixed_part new @ tl'"
    by (auto simp: prefix_def)
  from fixed_part_prefix [of old] obtain tl'' where ol: "old = fixed_part old @ tl''"
    by (auto simp: prefix_def)
  from r have len: "length (fixed_part old) \<le> length (fixed_part new)"
    by (metis length_append length_map le_add1)
  with assms(2) have i: "i < length (fixed_part new)" by simp
  have "strip (fixed_part new ! i) = (map strip (fixed_part old) @ rest) ! i"
    using i r by (metis nth_map)
  also have "\<dots> = strip (fixed_part old ! i)"
    using assms(2) by (simp add: nth_append)
  finally have "strip (fixed_part new ! i) = strip (fixed_part old ! i)" .
  moreover have "new ! i = fixed_part new ! i" using n i by (metis nth_append)
  moreover have "old ! i = fixed_part old ! i" using ol assms(2) by (metis nth_append)
  moreover have "i < length new" using n i by (metis length_append trans_less_add1)
  ultimately show ?thesis by simp
qed

section \<open>Which handlers touch the message log\<close>

lemma msgs_emit [simp]: "classroomMessages (emit e s) = classroomMessages s"
  by (simp add: emit_def)

lemma msgs_update_room [simp]: "classroomMessages (update_room f s) = classroomMessages s"
  by (simp add: update_room_def)

lemma msgs_update_self [simp]: "classroomMessages (update_self f s) = classroomMessages s"
  by (simp add: update_self_def)

lemma msgs_ensureAudioContext [simp]:
  "classroomMessages (ensureAudioContext s) = classroomMessages s"
  by (simp add: ensureAudioContext_def Let_def)

lemma state_after_simps [simp]:
  "state_after (Inr s) = s" "state_after (Inl (e, s)) = s"
  by (simp_all add: state_after_def)

lemma msgs_playNextChunk [simp]:
  "classroomMessages (state_after (playNextChunk s)) = classroomMessages s"
  by (simp add: playNextChunk_def Let_def split: list.splits)

lemma msgs_stopAudioPlayback [simp]:
  "classroomMessages (stopAudioPlayback s) = classroomMessages s"
  by (simp add: stopAudioPlayback_def)

lemma msgs_queueAudioChunk [simp]:
  "classroomMessages (state_after (queueAudioChunk raw s)) = classroomMessages s"
proof (cases "decode_pcm raw")
  case (Inl e)
  then show ?thesis by (simp add: queueAudioChunk_def)
next
  case (Inr float32)
  let ?s1 = "s\<lparr>audioQueue := audioQueue s @ [float32]\<rparr>"
  have "classroomMessages (state_after (playNextChunk ?s1)) = classroomMessages s"
    using msgs_playNextChunk [of ?s1] by simp
  with Inr show ?thesis by (simp add: queueAudioChunk_def Let_def)
qed

lemma msgs_sync_mode [simp]: "classroomMessages (sync_mode m s) = classroomMessages s"
  by (simp add: sync_mode_def split: option.splits)

lemma msgs_ws_send [simp]: "classroomMessages (ws_send m s) = classroomMessages s"
  by (simp add: ws_send_def)

lemma msgs_token_changed [simp]:
  "classroomMessages (token_changed_self sid (token_changed_room sid sname s)) =
   classroomMessages s"
  by (simp add: token_changed_self_def token_changed_room_def)

lemma msgs_resolve_raise [simp]: "classroomMessages (resolve_raise raise s) = classroomMessages s"
  by (simp add: resolve_raise_def Let_def)

lemma msgs_addClassroomMessage:
  "classroomMessages (addClassroomMessage now r c sname tr db s) =
   classroomMessages s @
   [\<lparr>msg_id = genMsgId now s, role = r, msg_speaker_name = sname, content = c,
     translated = Some (case tr of None \<Rightarrow> False | Some b \<Rightarrow> b), timestamp = now,
     streaming = None, reaction_counts = Some [], db_message_id = db, interrupted = None\<rparr>]"
  by (simp add: addClassroomMessage_def)

lemma stable_addClassroomMessage:
  "stable (classroomMessages s) (classroomMessages (addClassroomMessage now r c sname tr db s))"
  by (simp add: msgs_addClassroomMessage stable_snoc_fixed)

lemma stable_handleSendMessage:
  "stable (classroomMessages s) (classroomMessages (handleSendMessage now text s))"
  by (simp add: handleSendMessage_def stable_addClassroomMessage stable_refl)

lemma msgs_set_botTranscript [simp]:
  "classroomMessages (set_botTranscript t client s) = classroomMessages s"
  by (simp add: set_botTranscript_def Let_def)

lemma stable_turn_finished:
  "stable (classroomMessages s) (classroomMessages (turn_finished ts s))"
  by (simp add: turn_finished_def stable_addClassroomMessage stable_refl)

lemma stable_user_spoke:
  "stable (classroomMessages s) (classroomMessages (user_spoke now t final cleanText s))"
proof -
  have "stable (classroomMessages s)
          (classroomMessages (addClassroomMessage now User cleanText sn None None
             (s\<lparr>speakerUserText := t\<rparr>)))" for sn
    using stable_addClassroomMessage [of "s\<lparr>speakerUserText := t\<rparr>" now User cleanText sn None None]
    by simp
  then show ?thesis by (simp add: user_spoke_def stable_refl)
qed

lemma msgs_disconnectSpeakerPipeline [simp]:
  "classroomMessages (disconnectSpeakerPipeline s) = classroomMessages s"
  by (simp add: disconnectSpeakerPipeline_def Let_def)

lemma msgs_connectSpeakerPipeline [simp]:
  "classroomMessages (connectSpeakerPipeline s) = classroomMessages s"
  by (simp add: connectSpeakerPipeline_def split: option.splits)

lemma msgs_react [simp]: "classroomMessages (react a b c s) = classroomMessages s"
  by (simp add: react_def Let_def)

lemma msgs_connect_failed [simp]:
  "classroomMessages (connect_failed message s) = classroomMessages s"
  by (simp add: connect_failed_def)

lemma msgs_handleToggleMode [simp]:
  "classroomMessages (handleToggleMode m s) = classroomMessages s"
  by (simp add: handleToggleMode_def)

lemma stable_handleJsonMsg:
  "stable (classroomMessages s) (classroomMessages (handleJsonMsg now m s))"
proof (cases "speakerPipecat s")
  case None
  then show ?thesis by (simp add: handleJsonMsg_def stable_refl)
next
  case (Some client)
  show ?thesis
  proof (cases m)
    case (Bridge_bot_text_complete t intr)
    let ?c1 = "client\<lparr>currentBotText := js_or t ''''\<rparr>"
    let ?s1 = "set_botTranscript (currentBotText ?c1) ?c1 s"
    have "stable (classroomMessages ?s1) (classroomMessages (turn_finished now (?s1\<lparr>speakerPipecat := x\<rparr>)))"
      for x using stable_turn_finished [of "?s1\<lparr>speakerPipecat := x\<rparr>" now] by simp
    then show ?thesis
      using Some Bridge_bot_text_complete
      by (simp add: handleJsonMsg_def Let_def stable_refl)
  next
    case (Bridge_user_transcript t final cleanText)
    let ?fin = "case final of None \<Rightarrow> True | Some b \<Rightarrow> b"
    have "stable (classroomMessages s)
            (classroomMessages (user_spoke now (js_or t '''') ?fin cleanText
               (s\<lparr>speakerPipecat := x\<rparr>)))" for x
      using stable_user_spoke [of "s\<lparr>speakerPipecat := x\<rparr>" now "js_or t ''''" ?fin cleanText]
      by simp
    then show ?thesis
      using Some Bridge_user_transcript
      by (simp add: handleJsonMsg_def Let_def stable_refl)
  qed (simp_all add: Some handleJsonMsg_def Let_def stable_refl)
qed

lemma stable_handleWsMessage:
  assumes "\<not> replaces_log (Msg m)"
  shows "stable (classroomMessages s) (classroomMessages (handleWsMessage now m s))"
  using assms
  by (cases m)
     (simp_all add: stable_refl stable_bot_text stable_bot_text_complete stable_bot_response
        stable_reaction stable_addClassroomMessage updateMessageReaction_def Let_def)

lemma msgs_blob_resolved:
  "classroomMessages (step now Blob_resolved s) = classroomMessages s"
proof (cases "pendingBlobs s")
  case Nil
  then show ?thesis by (simp add: blob_resolved_def)
next
  case (Cons raw rest)
  have "classroomMessages (state_after (queueAudioChunk raw (s\<lparr>pendingBlobs := rest\<rparr>))) =
        classroomMessages s"
    using msgs_queueAudioChunk [of raw "s\<lparr>pendingBlobs := rest\<rparr>"] by simp
  with Cons show ?thesis by (simp add: blob_resolved_def)
qed

lemma msgs_handleJoinRoom [simp]:
  "classroomMessages (handleJoinRoom socket timer s) = classroomMessages s"
  by (simp add: handleJoinRoom_def Let_def split: sum.splits)

lemma stable_step:
  assumes "\<not> replaces_log i"
  shows "stable (classroomMessages s) (classroomMessages (step now i s))"
proof (cases i)
  case (Frame d)
  show ?thesis
  proof (cases d)
    case (ArrayBufferData raw)
    then show ?thesis
      using Frame by (simp add: deliver_def stable_refl)
  next
    case (BlobData raw)
    then show ?thesis using Frame by (simp add: deliver_def stable_refl)
  next
    case (TextData mo)
    then show ?thesis
      using Frame assms by (cases mo) (simp_all add: deliver_def stable_refl stable_handleWsMessage)
  qed
next
  case Blob_resolved
  then show ?thesis using msgs_blob_resolved [of now s] by (simp add: stable_refl)
next
  case (Bridge m)
  then show ?thesis by (simp add: stable_handleJsonMsg)
next
  case Leave
  then show ?thesis using assms by simp
qed (simp_all add: stable_refl stable_addClassroomMessage stable_handleSendMessage
       source_ended_def resume_resolved_def handleSetPlaybackMode_def Let_def
       handleRaiseHand_def handleLowerHand_def hand_button_click_def poll_tick_def
       poll_resolved_def lobby_tick_def lobby_resolved_def ws_onopen_def ws_onerror_def
       ws_onclose_def disconnectSpeakerPipeline_def emit_def
       split: option.splits list.splits sum.splits)

lemma stable_run:
  "list_all (\<lambda>e. \<not> replaces_log (snd e)) evs \<Longrightarrow>
   stable (classroomMessages s) (classroomMessages (run evs s))"
proof (induction evs arbitrary: s)
  case Nil
  show ?case by (simp add: stable_refl)
next
  case (Cons e evs)
  obtain now i where e: "e = (now, i)" by (cases e)
  from Cons.prems e have "\<not> replaces_log i" and rest: "list_all (\<lambda>e. \<not> replaces_log (snd e)) evs"
    by simp_all
  then have "stable (classroomMessages s) (classroomMessages (step now i s))"
    by (simp add: stable_step)
  moreover have "stable (classroomMessages (step now i s)) (classroomMessages (run evs (step now i s)))"
    by (rule Cons.IH [OF rest])
  ultimately show ?case using e by (auto intro: stable_trans)
qed

section \<open>The streaming flag\<close>

lemma fixed_part_bot_text: "fixed_part (bot_text_update text now msgs) = fixed_part msgs"
proof (cases "last_streaming msgs")
  case True
  then show ?thesis
    by (simp add: bot_text_update_def fixed_part_snoc) (simp add: fixed_part_def last_streaming_def)
next
  case False
  then show ?thesis
    by (simp add: bot_text_update_def fixed_part_snoc) (simp add: fixed_part_def)
qed

lemma tail_only_Nil [simp]: "tail_only []"
  by (simp add: tail_only_def)

lemma tail_only_unflagged: "list_all (\<lambda>m. \<not> flagged m) msgs \<Longrightarrow> tail_only msgs"
  unfolding tail_only_def list_all_iff using fixed_part_prefix [of msgs] set_mono_prefix by blast

lemma tail_only_hydrate: "tail_only (map (hydrate now) ms)"
  by (rule tail_only_unflagged) (simp add: list_all_iff hydrate_def flagged_def)

lemma tail_only_snoc:
  "tail_only msgs \<Longrightarrow> \<not> last_streaming msgs \<Longrightarrow> \<not> flagged m \<Longrightarrow> tail_only (msgs @ [m])"
  by (simp add: tail_only_def fixed_part_snoc flagged_def) (simp add: fixed_part_def)

lemma tail_only_close:
  "tail_only msgs \<Longrightarrow> last_streaming msgs \<Longrightarrow> \<not> flagged m \<Longrightarrow> tail_only (butlast msgs @ [m])"
  by (simp add: tail_only_def fixed_part_snoc flagged_def) (simp add: fixed_part_def)

lemma tail_only_bot_text: "tail_only msgs \<Longrightarrow> tail_only (bot_text_update text now msgs)"
  by (simp add: tail_only_def fixed_part_bot_text)

lemma tail_only_bot_text_complete:
  "tail_only msgs \<Longrightarrow> tail_only (bot_text_complete_update text intr now msgs)"
  by (simp add: bot_text_complete_update_def tail_only_snoc tail_only_close flagged_def)

lemma tail_only_bot_response:
  "tail_only msgs \<Longrightarrow> tail_only (bot_response_update text tt now msgs)"
  by (simp add: bot_response_update_def tail_only_snoc tail_only_close flagged_def)

lemma tail_only_reaction:
  assumes "tail_only msgs"
  shows "tail_only (reaction_update_map mid emoji delta msgs)"
proof -
  let ?f = "\<lambda>m. if refers_to mid m
                 then m\<lparr>reaction_counts := Some (bump_reaction emoji delta (reaction_counts m))\<rparr>
                 else m"
  have ls: "last_streaming (map ?f msgs) = last_streaming msgs"
    by (rule last_streaming_map) simp_all
  have fp: "fixed_part (map ?f msgs) = map ?f (fixed_part msgs)"
    by (simp add: fixed_part_def ls map_butlast)
  have "\<not> flagged (?f m)" if "\<not> flagged m" for m using that by (simp add: flagged_def)
  with assms have "list_all (\<lambda>m. \<not> flagged m) (map ?f (fixed_part msgs))"
    unfolding tail_only_def list_all_iff by (metis (no_types, lifting) imageE list.set_map)
  then show ?thesis
    by (simp only: tail_only_def reaction_update_map_def fp)
qed

lemma tail_only_flags:
  assumes "tail_only msgs"
  shows "length (filter flagged msgs) \<le> 1 \<and>
         (\<forall>i < length msgs. flagged (msgs ! i) \<longrightarrow> Suc i = length msgs)"
proof (cases "last_streaming msgs")
  case True
  then have sp: "msgs = butlast msgs @ [last msgs]" by (rule last_streaming_split)
  from assms True have clean: "\<forall>m \<in> set (butlast msgs). \<not> flagged m"
    by (simp add: tail_only_def fixed_part_def list_all_iff)
  then have "filter flagged (butlast msgs) = []" by (simp add: filter_empty_conv)
  then have "length (filter flagged (butlast msgs @ [last msgs])) \<le> 1" by simp
  with sp have one: "length (filter flagged msgs) \<le> 1" by simp
  have "Suc i = length msgs" if i: "i < length msgs" and f: "flagged (msgs ! i)" for i
  proof (rule ccontr)
    assume "Suc i \<noteq> length msgs"
    with i have b: "i < length (butlast msgs)" by simp
    then have "butlast msgs ! i \<in> set (butlast msgs)" by simp
    moreover have "msgs ! i = butlast msgs ! i" using b by (simp add: nth_butlast)
    ultimately show False using clean f by simp
  qed
  with one show ?thesis by blast
next
  case False
  with assms have clean: "\<forall>m \<in> set msgs. \<not> flagged m"
    by (simp add: tail_only_def fixed_part_def list_all_iff)
  then have "filter flagged msgs = []" by (simp add: filter_empty_conv)
  moreover from clean have "\<forall>i < length msgs. \<not> flagged (msgs ! i)" by simp
  ultimately show ?thesis by simp
qed

lemma msgs_resetClassroom [simp]: "classroomMessages (resetClassroom s) = []"
  by (simp add: resetClassroom_def Let_def emit_def split: option.splits)

lemma msgs_handleLeaveRoom [simp]: "classroomMessages (handleLeaveRoom s) = []"
  by (simp add: handleLeaveRoom_def Let_def)

lemma tail_only_handleWsMessage:
  assumes "\<not> appends_message (Msg m)" and "tail_only (classroomMessages s)"
  shows "tail_only (classroomMessages (handleWsMessage now m s))"
proof (cases m)
  case (Joined room you recent)
  then show ?thesis
    by (cases recent) (simp_all add: on_joined_def Let_def tail_only_hydrate)
next
  case (Kicked msg)
  then show ?thesis
    by simp
qed (use assms in \<open>simp_all add: tail_only_bot_text tail_only_bot_text_complete
       tail_only_bot_response tail_only_reaction updateMessageReaction_def Let_def\<close>)

lemma tail_only_handleJsonMsg:
  assumes "\<not> appends_message (Bridge m)" and "tail_only (classroomMessages s)"
  shows "tail_only (classroomMessages (handleJsonMsg now m s))"
  using assms
  by (cases m; cases "speakerPipecat s") (simp_all add: handleJsonMsg_def Let_def)

lemma tail_only_step:
  assumes "\<not> appends_message i" and "tail_only (classroomMessages s)"
  shows "tail_only (classroomMessages (step now i s))"
proof (cases i)
  case (Frame d)
  show ?thesis
  proof (cases d)
    case (ArrayBufferData raw)
    then show ?thesis
      using Frame assms(2) by (simp add: deliver_def)
  next
    case (BlobData raw)
    then show ?thesis using Frame assms(2) by (simp add: deliver_def)
  next
    case (TextData mo)
    then show ?thesis
      using Frame assms by (cases mo) (simp_all add: deliver_def tail_only_handleWsMessage)
  qed
next
  case Blob_resolved
  then show ?thesis using msgs_blob_resolved [of now s] assms(2) by simp
next
  case (Bridge m)
  then show ?thesis using assms by (simp add: tail_only_handleJsonMsg)
next
  case Leave
  then show ?thesis by simp
qed (use assms in \<open>simp_all add: source_ended_def resume_resolved_def handleSetPlaybackMode_def
       Let_def handleRaiseHand_def handleLowerHand_def hand_button_click_def poll_tick_def
       poll_resolved_def lobby_tick_def lobby_resolved_def ws_onopen_def ws_onerror_def
       ws_onclose_def disconnectSpeakerPipeline_def emit_def
       split: option.splits list.splits sum.splits\<close>)

lemma tail_only_run:
  "list_all (\<lambda>e. \<not> appends_message (snd e)) evs \<Longrightarrow> tail_only (classroomMessages s) \<Longrightarrow>
   tail_only (classroomMessages (run evs s))"
proof (induction evs arbitrary: s)
  case Nil
  then show ?case by simp
next
  case (Cons e evs)
  obtain now i where e: "e = (now, i)" by (cases e)
  from Cons.prems e have "\<not> appends_message i"
    and rest: "list_all (\<lambda>e. \<not> appends_message (snd e)) evs" by simp_all
  with Cons.prems(2) have "tail_only (classroomMessages (step now i s))"
    by (simp add: tail_only_step)
  from Cons.IH [OF rest this] show ?case using e by simp
qed

section \<open>Streaming a reply\<close>

lemma run_append: "run (xs @ ys) s = run ys (run xs s)"
  by (induction xs arbitrary: s) auto

lemma msgs_step_bot_text:
  "classroomMessages (deliver t (TextData (Some (Bot_text f))) s) =
   bot_text_update f t (classroomMessages s)"
  by (simp add: deliver_def)

lemma msgs_step_bot_text_complete:
  "classroomMessages (deliver t (TextData (Some (Bot_text_complete f intr))) s) =
   bot_text_complete_update f intr t (classroomMessages s)"
  by (simp add: deliver_def)

lemma run_bot_text_streaming:
  "classroomMessages s = pre @ [m] \<Longrightarrow> role m = Assistant \<Longrightarrow> streaming m = Some True \<Longrightarrow>
   classroomMessages (run (bot_text_inputs frags) s) =
   pre @ [m\<lparr>content := content m @ stream_text frags\<rparr>]"
proof (induction frags arbitrary: s m)
  case Nil
  then show ?case by (simp add: bot_text_inputs_def stream_text_def)
next
  case (Cons e frags)
  obtain t f where e: "e = (t, f)" by (cases e)
  let ?s = "step t (Msg (Bot_text f)) s"
  let ?m = "m\<lparr>content := content m @ js_or f ''''\<rparr>"
  have "classroomMessages ?s = pre @ [?m]"
    using Cons.prems by (simp add: msgs_step_bot_text bot_text_update_def)
  moreover have "role ?m = Assistant" "streaming ?m = Some True"
    using Cons.prems by simp_all
  ultimately have "classroomMessages (run (bot_text_inputs frags) ?s) =
      pre @ [?m\<lparr>content := content ?m @ stream_text frags\<rparr>]"
    by (rule Cons.IH)
  then show ?case
    using e by (simp add: bot_text_inputs_def stream_text_def)
qed

text \<open>
  C3. A stream of one or more \<open>bot_text\<close> frames followed by \<open>bot_text_complete\<close> writes
  one entry of the log and nothing else. If the tail of the log is a streaming assistant
  message, that entry is the tail; otherwise it is a new entry appended by the first
  fragment. While the stream runs, its content is the old content followed by the
  fragments in order; after \<open>bot_text_complete\<close> it is the final text of the server when
  that is non-empty and the concatenation otherwise, and the streaming flag is cleared.
  All other entries are the same objects at the same positions.
\<close>

theorem stream_writes_one_message:
  "classroomMessages (run (bot_text_inputs ((t0, f0) # rest)) s) =
     (if last_streaming (classroomMessages s) then
        butlast (classroomMessages s) @
        [(last (classroomMessages s))
           \<lparr>content := content (last (classroomMessages s)) @ stream_text ((t0, f0) # rest)\<rparr>]
      else
        classroomMessages s @
        [\<lparr>msg_id = ''msg-'' @ show_nat t0, role = Assistant, msg_speaker_name = Some ''Mira'',
          content = stream_text ((t0, f0) # rest), translated = None, timestamp = t0,
          streaming = Some True, reaction_counts = None, db_message_id = None,
          interrupted = None\<rparr>]) \<and>
   classroomMessages
     (run (bot_text_inputs ((t0, f0) # rest) @ [(tc, Msg (Bot_text_complete final intr))]) s) =
     (if last_streaming (classroomMessages s) then
        butlast (classroomMessages s) @
        [(last (classroomMessages s))
           \<lparr>content :=
              js_or final (content (last (classroomMessages s)) @ stream_text ((t0, f0) # rest)),
            streaming := Some False, interrupted := Some intr\<rparr>]
      else
        classroomMessages s @
        [\<lparr>msg_id = ''msg-'' @ show_nat t0, role = Assistant, msg_speaker_name = Some ''Mira'',
          content = js_or final (stream_text ((t0, f0) # rest)), translated = None,
          timestamp = t0, streaming = Some False, reaction_counts = None,
          db_message_id = None, interrupted = Some intr\<rparr>])"
proof (cases "last_streaming (classroomMessages s)")
  case True
  let ?pre = "butlast (classroomMessages s)" and ?m = "last (classroomMessages s)"
  from True have sp: "classroomMessages s = ?pre @ [?m]" by (rule last_streaming_split)
  from True have rm: "role ?m = Assistant" "streaming ?m = Some True"
    by (simp_all add: last_streaming_def)
  have streamed: "classroomMessages (run (bot_text_inputs ((t0, f0) # rest)) s) =
      ?pre @ [?m\<lparr>content := content ?m @ stream_text ((t0, f0) # rest)\<rparr>]"
    by (rule run_bot_text_streaming [OF sp rm])
  then have "classroomMessages
      (run (bot_text_inputs ((t0, f0) # rest) @ [(tc, Msg (Bot_text_complete final intr))]) s) =
      ?pre @ [?m\<lparr>content := js_or final (content ?m @ stream_text ((t0, f0) # rest)),
                  streaming := Some False, interrupted := Some intr\<rparr>]"
    using rm by (simp add: run_append msgs_step_bot_text_complete bot_text_complete_update_def)
  with streamed True show ?thesis by simp
next
  case False
  let ?s1 = "step t0 (Msg (Bot_text f0)) s"
  let ?m = "\<lparr>msg_id = ''msg-'' @ show_nat t0, role = Assistant, msg_speaker_name = Some ''Mira'',
             content = js_or f0 '''', translated = None, timestamp = t0,
             streaming = Some True, reaction_counts = None, db_message_id = None,
             interrupted = None\<rparr>"
  have first: "classroomMessages ?s1 = classroomMessages s @ [?m]"
    using False by (simp add: msgs_step_bot_text bot_text_update_def)
  have "classroomMessages (run (bot_text_inputs rest) ?s1) =
      classroomMessages s @ [?m\<lparr>content := content ?m @ stream_text rest\<rparr>]"
    by (rule run_bot_text_streaming [OF first]) simp_all
  then have streamed: "classroomMessages (run (bot_text_inputs ((t0, f0) # rest)) s) =
      classroomMessages s @ [?m\<lparr>content := stream_text ((t0, f0) # rest)\<rparr>]"
    by (simp add: bot_text_inputs_def stream_text_def)
  then have "classroomMessages
      (run (bot_text_inputs ((t0, f0) # rest) @ [(tc, Msg (Bot_text_complete final intr))]) s) =
      classroomMessages s @
      [?m\<lparr>content := js_or final (stream_text ((t0, f0) # rest)),
           streaming := Some False, interrupted := Some intr\<rparr>]"
    by (simp add: run_append msgs_step_bot_text_complete bot_text_complete_update_def)
  with streamed False show ?thesis by simp
qed

theorem stream_writes_one_message_witness:
  "map content
     (classroomMessages
        (run (bot_text_inputs [(1, Some ''Hel''), (2, Some ''lo'')] @
              [(3, Msg (Bot_text_complete None False))]) initial)) = [''Hello'']"
proof -
  have "\<not> last_streaming (classroomMessages initial)" by (simp add: initial_def)
  with stream_writes_one_message [of 1 "Some ''Hel''" "[(2, Some ''lo'')]" initial 3 None False]
  show ?thesis by (simp add: stream_text_def js_or_def initial_def)
qed

section \<open>Interrupted replies\<close>

lemma complete_not_streaming:
  "\<not> last_streaming (bot_text_complete_update final intr now msgs)"
  by (simp add: bot_text_complete_update_def)

lemma fixed_part_complete:
  "fixed_part (bot_text_complete_update final intr now msgs) =
   bot_text_complete_update final intr now msgs"
  by (simp add: fixed_part_def complete_not_streaming)

lemma strip_fields:
  "strip a = strip b \<Longrightarrow> content a = content b \<and> role a = role b \<and> streaming a = streaming b"
  by (metis (no_types, lifting) ClassroomMessage.select_convs(2,4,7)
      ClassroomMessage.surjective ClassroomMessage.update_convs(8) strip_def)

lemma bridge_interrupted:
  assumes c: "speakerPipecat s = Some client"
    and n0: "now \<noteq> 0" and fresh: "now \<noteq> botResponseInterrupted client"
  shows "classroomMessages (handleJsonMsg now (Bridge_bot_text_complete final True) s) =
           (if js_or final (speakerBotText s) = '''' then classroomMessages s
            else classroomMessages s @
              [\<lparr>msg_id = ''cm-'' @ show_nat now @ ''-'' @ show_nat (msgCounter s + 1),
                role = Assistant, msg_speaker_name = Some ''Mira'',
                content = js_or final (speakerBotText s), translated = Some False,
                timestamp = now, streaming = None, reaction_counts = Some [],
                db_message_id = None, interrupted = None\<rparr>])"
    and "speakerBotText (handleJsonMsg now (Bridge_bot_text_complete final True) s) = ''''"
    and "map_option currentBotText
           (speakerPipecat (handleJsonMsg now (Bridge_bot_text_complete final True) s)) = Some ''''"
  using assms
  by (auto simp: handleJsonMsg_def Let_def set_botTranscript_def turn_finished_def
      addClassroomMessage_def genMsgId_def js_or_def split: option.splits)

lemma bridge_next_text:
  assumes "map_option currentBotText (speakerPipecat s) = Some ''''" and "f \<noteq> ''''"
  shows "classroomMessages (handleJsonMsg t (Bridge_bot_text (Some f)) s) = classroomMessages s"
    and "speakerBotText (handleJsonMsg t (Bridge_bot_text (Some f)) s) = f"
  using assms
  by (auto simp: handleJsonMsg_def Let_def set_botTranscript_def truthy_def js_or_def)

text \<open>
  What an interruption does in every state. On the room socket, after a
  \<open>bot_text_complete\<close> with \<open>interrupted\<close> set the tail of the log is not streaming; when
  the streaming reply is still the tail, it has become a finished message (flag cleared,
  marked interrupted, content the final text or what was streamed); no entry of the log at
  that moment has its content or flag written by any later input that keeps the log; and
  the next \<open>bot_text\<close> appends a new message. On the voice bridge, when the
  \<open>botResponseInterrupted\<close> store fires (a timestamp that is not zero and differs from
  the stored one), the partial text is appended as a finished message without a streaming
  flag, the partial text of the page and of the client are emptied, and the next
  \<open>bot_text\<close> of the bridge starts from its own fragment without touching the log.
\<close>

lemma interruption_at_the_tail:
  "\<not> last_streaming (classroomMessages (step now (Msg (Bot_text_complete final True)) s)) \<and>
   (last_streaming (classroomMessages s) \<longrightarrow>
      classroomMessages (step now (Msg (Bot_text_complete final True)) s) =
        butlast (classroomMessages s) @
        [(last (classroomMessages s))
           \<lparr>content := js_or final (content (last (classroomMessages s))),
            streaming := Some False, interrupted := Some True\<rparr>]) \<and>
   (list_all (\<lambda>e. \<not> replaces_log (snd e)) evs \<longrightarrow>
      (\<forall>i < length (classroomMessages (step now (Msg (Bot_text_complete final True)) s)).
         i < length (classroomMessages (run evs (step now (Msg (Bot_text_complete final True)) s))) \<and>
         content (classroomMessages (run evs (step now (Msg (Bot_text_complete final True)) s)) ! i) =
           content (classroomMessages (step now (Msg (Bot_text_complete final True)) s) ! i) \<and>
         streaming (classroomMessages (run evs (step now (Msg (Bot_text_complete final True)) s)) ! i) =
           streaming (classroomMessages (step now (Msg (Bot_text_complete final True)) s) ! i))) \<and>
   classroomMessages (step t (Msg (Bot_text f)) (step now (Msg (Bot_text_complete final True)) s)) =
     classroomMessages (step now (Msg (Bot_text_complete final True)) s) @
     [\<lparr>msg_id = ''msg-'' @ show_nat t, role = Assistant, msg_speaker_name = Some ''Mira'',
       content = js_or f '''', translated = None, timestamp = t, streaming = Some True,
       reaction_counts = None, db_message_id = None, interrupted = None\<rparr>] \<and>
   (speakerPipecat s = Some client \<and> now \<noteq> 0 \<and> now \<noteq> botResponseInterrupted client \<longrightarrow>
      classroomMessages (step now (Bridge (Bridge_bot_text_complete final True)) s) =
        (if js_or final (speakerBotText s) = '''' then classroomMessages s
         else classroomMessages s @
           [\<lparr>msg_id = ''cm-'' @ show_nat now @ ''-'' @ show_nat (msgCounter s + 1),
             role = Assistant, msg_speaker_name = Some ''Mira'',
             content = js_or final (speakerBotText s), translated = Some False,
             timestamp = now, streaming = None, reaction_counts = Some [],
             db_message_id = None, interrupted = None\<rparr>]) \<and>
      speakerBotText (step now (Bridge (Bridge_bot_text_complete final True)) s) = '''' \<and>
      (g \<noteq> '''' \<longrightarrow>
         classroomMessages
           (step t (Bridge (Bridge_bot_text (Some g)))
              (step now (Bridge (Bridge_bot_text_complete final True)) s)) =
           classroomMessages (step now (Bridge (Bridge_bot_text_complete final True)) s) \<and>
         speakerBotText
           (step t (Bridge (Bridge_bot_text (Some g)))
              (step now (Bridge (Bridge_bot_text_complete final True)) s)) = g))"
proof -
  let ?s1 = "step now (Msg (Bot_text_complete final True)) s"
  have m1: "classroomMessages ?s1 =
      bot_text_complete_update final True now (classroomMessages s)"
    by (simp add: msgs_step_bot_text_complete)
  have a: "\<not> last_streaming (classroomMessages ?s1)"
    by (simp only: m1 complete_not_streaming not_False_eq_True)
  have b: "last_streaming (classroomMessages s) \<longrightarrow>
      classroomMessages ?s1 =
        butlast (classroomMessages s) @
        [(last (classroomMessages s))
           \<lparr>content := js_or final (content (last (classroomMessages s))),
            streaming := Some False, interrupted := Some True\<rparr>]"
    by (simp add: msgs_step_bot_text_complete bot_text_complete_update_def)
  have c: "i < length (classroomMessages (run evs ?s1)) \<and>
           content (classroomMessages (run evs ?s1) ! i) = content (classroomMessages ?s1 ! i) \<and>
           streaming (classroomMessages (run evs ?s1) ! i) = streaming (classroomMessages ?s1 ! i)"
    if keep: "list_all (\<lambda>e. \<not> replaces_log (snd e)) evs"
      and i: "i < length (classroomMessages ?s1)" for i
  proof -
    have st: "stable (classroomMessages ?s1) (classroomMessages (run evs ?s1))"
      by (rule stable_run [OF keep])
    from a have "fixed_part (classroomMessages ?s1) = classroomMessages ?s1"
      by (simp add: fixed_part_def)
    with i have "i < length (fixed_part (classroomMessages ?s1))" by simp
    from stable_nth [OF st this] show ?thesis using strip_fields by blast
  qed
  have d: "classroomMessages (step t (Msg (Bot_text f)) ?s1) =
      classroomMessages ?s1 @
      [\<lparr>msg_id = ''msg-'' @ show_nat t, role = Assistant, msg_speaker_name = Some ''Mira'',
        content = js_or f '''', translated = None, timestamp = t, streaming = Some True,
        reaction_counts = None, db_message_id = None, interrupted = None\<rparr>]"
    using a by (simp add: msgs_step_bot_text bot_text_update_def)
  let ?b1 = "step now (Bridge (Bridge_bot_text_complete final True)) s"
  have e: "classroomMessages ?b1 =
        (if js_or final (speakerBotText s) = '''' then classroomMessages s
         else classroomMessages s @
           [\<lparr>msg_id = ''cm-'' @ show_nat now @ ''-'' @ show_nat (msgCounter s + 1),
             role = Assistant, msg_speaker_name = Some ''Mira'',
             content = js_or final (speakerBotText s), translated = Some False,
             timestamp = now, streaming = None, reaction_counts = Some [],
             db_message_id = None, interrupted = None\<rparr>]) \<and>
      speakerBotText ?b1 = '''' \<and>
      (g \<noteq> '''' \<longrightarrow>
         classroomMessages (step t (Bridge (Bridge_bot_text (Some g))) ?b1) =
           classroomMessages ?b1 \<and>
         speakerBotText (step t (Bridge (Bridge_bot_text (Some g))) ?b1) = g)"
    if h: "speakerPipecat s = Some client \<and> now \<noteq> 0 \<and> now \<noteq> botResponseInterrupted client"
  proof -
    from h have c1: "speakerPipecat s = Some client" and n0: "now \<noteq> 0"
      and fr: "now \<noteq> botResponseInterrupted client" by simp_all
    note bi = bridge_interrupted [OF c1 n0 fr, of final]
    have "classroomMessages (step t (Bridge (Bridge_bot_text (Some g))) ?b1) =
            classroomMessages ?b1 \<and>
          speakerBotText (step t (Bridge (Bridge_bot_text (Some g))) ?b1) = g" if "g \<noteq> ''''"
      using bridge_next_text [of ?b1 g t] bi(3) that by simp
    with bi(1,2) show ?thesis by simp
  qed
  from a b c d e show ?thesis by (simp only: HOL.simp_thms) blast
qed


text \<open>
  C4. The interruption does not finalize a streaming reply that is no longer the tail of
  the log. In a barge-in the speaker's words are appended while the reply is streaming: as
  a \<open>transcription\<close> on a listener's page, by \<open>handleSendMessage\<close> on the page of a
  speaker who types, and by the \<open>userTranscript\<close> subscriber on the page of a speaker who
  talks. The \<open>bot_text_complete\<close> with \<open>interrupted\<close> set that follows tests the tail
  only, so the streaming reply keeps its flag for good and is not marked interrupted; the
  final text of the event is appended as a second assistant message, and without a final
  text nothing is written at all. The next \<open>bot_text\<close> does open a new message. Below,
  each entry of the log is shown as role, content, streaming flag and interrupted flag.
\<close>

theorem interrupted_reply_keeps_flag:
  "map (\<lambda>m. (role m, content m, streaming m, interrupted m))
     (classroomMessages
        (run [(3, Msg (Bot_text (Some ''Hi''))),
              (4, Msg (Transcription ''stop'' None (Some ''Bob''))),
              (5, Msg (Bot_text_complete (Some ''Hi'') True))] demo_active)) =
     [(Assistant, ''Hi'', Some True, None), (User, ''stop'', None, None),
      (Assistant, ''Hi'', None, Some True)] \<and>
   map (\<lambda>m. (role m, content m, streaming m, interrupted m))
     (classroomMessages
        (run [(3, Msg (Bot_text (Some ''Hi''))),
              (4, Msg (Transcription ''stop'' None (Some ''Bob''))),
              (5, Msg (Bot_text_complete None True)),
              (6, Msg (Bot_text (Some ''Yes'')))] demo_active)) =
     [(Assistant, ''Hi'', Some True, None), (User, ''stop'', None, None),
      (Assistant, ''Yes'', Some True, None)] \<and>
   map (\<lambda>m. (role m, content m, streaming m, interrupted m))
     (classroomMessages
        (run [(3, Msg (Token_changed (Some ''u1'') (Some ''Ann''))),
              (4, Msg (Bot_text (Some ''Hi''))),
              (5, Send_message ''stop''),
              (6, Msg (Bot_text_complete (Some ''Hi'') True))] demo_active)) =
     [(Assistant, ''Hi'', Some True, None), (User, ''stop'', None, None),
      (Assistant, ''Hi'', None, Some True)] \<and>
   map (\<lambda>m. (role m, content m, streaming m, interrupted m))
     (classroomMessages
        (run [(3, Msg (Token_changed (Some ''u1'') (Some ''Ann''))),
              (4, Toggle_mode Voice), (5, Reactive True True True),
              (6, Msg (Bot_text (Some ''Hi''))),
              (7, Bridge (Bridge_user_transcript (Some ''stop'') None ''stop'')),
              (8, Msg (Bot_text_complete None True))] demo_active)) =
     [(Assistant, ''Hi'', Some True, None), (User, ''stop'', None, None)]"
  by code_simp
section \<open>One writable tail\<close>

text \<open>
  What holds of the log in every run. For every run of inputs that keep the log (all
  inputs but \<open>joined\<close>, \<open>kicked\<close> and leaving, which put a new log in place), every entry
  other than a tail that is still streaming keeps its position, content, role and
  streaming flag: only a streaming tail is ever written.
\<close>

lemma fixed_entries_are_kept:
  assumes keep: "list_all (\<lambda>e. \<not> replaces_log (snd e)) evs"
    and i: "i < length (fixed_part (classroomMessages s))"
  shows "i < length (classroomMessages (run evs s)) \<and>
         content (classroomMessages (run evs s) ! i) = content (classroomMessages s ! i) \<and>
         role (classroomMessages (run evs s) ! i) = role (classroomMessages s ! i) \<and>
         streaming (classroomMessages (run evs s) ! i) = streaming (classroomMessages s ! i)"
  using stable_nth [OF stable_run [OF keep] i] strip_fields by blast

text \<open>
  As long as every message that \<open>addClassroomMessage\<close> appends arrives while the tail is
  not a streaming reply, at most one entry carries the streaming flag and it is the last
  one.
\<close>

lemma tail_only_append:
  assumes "tail_only (classroomMessages s)" and "\<not> last_streaming (classroomMessages s)"
  shows "tail_only (classroomMessages (addClassroomMessage now r c sn tr db s))"
  using assms by (simp add: msgs_addClassroomMessage tail_only_snoc flagged_def)

lemma tail_only_turn_finished:
  assumes "tail_only (classroomMessages s)" and "\<not> last_streaming (classroomMessages s)"
  shows "tail_only (classroomMessages (turn_finished ts s))"
  using assms by (simp add: turn_finished_def tail_only_append)

lemma tail_only_user_spoke:
  assumes "tail_only (classroomMessages s)" and "\<not> last_streaming (classroomMessages s)"
  shows "tail_only (classroomMessages (user_spoke now t final cleanText s))"
proof -
  have "tail_only (classroomMessages (addClassroomMessage now User cleanText sn None None
          (s\<lparr>speakerUserText := t\<rparr>)))" for sn
    using assms tail_only_append [of "s\<lparr>speakerUserText := t\<rparr>" now User cleanText sn None None]
    by simp
  with assms(1) show ?thesis by (simp add: user_spoke_def)
qed

lemma tail_only_bridge:
  assumes "tail_only (classroomMessages s)" and "\<not> last_streaming (classroomMessages s)"
  shows "tail_only (classroomMessages (handleJsonMsg now m s))"
proof (cases "speakerPipecat s")
  case None
  with assms(1) show ?thesis by (simp add: handleJsonMsg_def)
next
  case (Some client)
  show ?thesis
  proof (cases m)
    case (Bridge_bot_text_complete t intr)
    let ?c1 = "client\<lparr>currentBotText := js_or t ''''\<rparr>"
    let ?s1 = "set_botTranscript (currentBotText ?c1) ?c1 s"
    have "tail_only (classroomMessages (turn_finished now (?s1\<lparr>speakerPipecat := x\<rparr>)))" for x
      using assms tail_only_turn_finished [of "?s1\<lparr>speakerPipecat := x\<rparr>" now] by simp
    then show ?thesis
      using Some Bridge_bot_text_complete assms(1)
      by (simp add: handleJsonMsg_def Let_def)
  next
    case (Bridge_user_transcript t final cleanText)
    let ?fin = "case final of None \<Rightarrow> True | Some b \<Rightarrow> b"
    have "tail_only (classroomMessages (user_spoke now (js_or t '''') ?fin cleanText
            (s\<lparr>speakerPipecat := x\<rparr>)))" for x
      using assms tail_only_user_spoke [of "s\<lparr>speakerPipecat := x\<rparr>" now "js_or t ''''" ?fin cleanText]
      by simp
    then show ?thesis
      using Some Bridge_user_transcript assms(1)
      by (simp add: handleJsonMsg_def Let_def)
  qed (use assms(1) Some in \<open>simp_all add: handleJsonMsg_def Let_def\<close>)
qed

lemma tail_only_step_append:
  assumes t: "tail_only (classroomMessages s)"
    and a: "appends_message i \<longrightarrow> \<not> last_streaming (classroomMessages s)"
  shows "tail_only (classroomMessages (step now i s))"
proof (cases "appends_message i")
  case False
  then show ?thesis using t by (simp add: tail_only_step)
next
  case True
  with a have n: "\<not> last_streaming (classroomMessages s)" by simp
  from True show ?thesis
  proof (cases i rule: appends_message.cases)
    case (1 tx translated_text sname)
    then show ?thesis using t n by (simp add: deliver_def tail_only_append)
  next
    case (2 r c sname tr db)
    then show ?thesis using t n by (simp add: tail_only_append)
  next
    case (3 tx)
    then show ?thesis using t n by (simp add: handleSendMessage_def tail_only_append)
  next
    case (4 tx intr)
    then show ?thesis using t n by (simp add: tail_only_bridge)
  next
    case (5 tx final cleanText)
    then show ?thesis using t n by (simp add: tail_only_bridge)
  qed simp_all
qed

lemma tail_only_run_append:
  "appends_after_reply evs s \<Longrightarrow> tail_only (classroomMessages s) \<Longrightarrow>
   tail_only (classroomMessages (run evs s))"
proof (induction evs arbitrary: s)
  case Nil
  then show ?case by simp
next
  case (Cons e evs)
  obtain now i where e: "e = (now, i)" by (cases e)
  from Cons.prems(1) e have a: "appends_message i \<longrightarrow> \<not> last_streaming (classroomMessages s)"
    and rest: "appends_after_reply evs (step now i s)" by simp_all
  from tail_only_step_append [OF Cons.prems(2) a]
  have "tail_only (classroomMessages (step now i s))" .
  from Cons.IH [OF rest this] show ?case using e by simp
qed

lemma one_streaming_tail:
  assumes "appends_after_reply evs s" and "tail_only (classroomMessages s)"
  shows "length (filter flagged (classroomMessages (run evs s))) \<le> 1 \<and>
         (\<forall>i < length (classroomMessages (run evs s)).
            flagged (classroomMessages (run evs s) ! i) \<longrightarrow>
            Suc i = length (classroomMessages (run evs s)))"
  using assms by (intro tail_only_flags tail_only_run_append)

text \<open>
  C5. A message appended while a reply is streaming breaks the invariant. A
  \<open>transcription\<close> that arrives between two fragments is appended behind the streaming
  message, which keeps its flag; the next fragment then opens a second flagged entry, so two
  entries carry the streaming flag and the first of them is not the tail. No later event
  clears the first flag: \<open>bot_text_complete\<close> closes the second entry only. The handlers
  of \<open>bot_response\<close> and \<open>bot_text_complete\<close> do finalize a streaming message when it
  is the tail: a \<open>bot_response\<close> straight after the fragment leaves no flag set. The
  contents of the finished entries are as they were appended.
\<close>

theorem streaming_flag_left_behind:
  "map flagged
     (classroomMessages
        (run [(3, Msg (Bot_text (Some ''Hi''))),
              (4, Msg (Transcription ''why?'' None (Some ''Bob''))),
              (5, Msg (Bot_text (Some ''there'')))] demo_active)) = [True, False, True] \<and>
   map (\<lambda>m. (content m, flagged m))
     (classroomMessages
        (run [(3, Msg (Bot_text (Some ''Hi''))),
              (4, Msg (Transcription ''why?'' None (Some ''Bob''))),
              (5, Msg (Bot_text (Some ''there''))),
              (6, Msg (Bot_text_complete None False))] demo_active)) =
     [(''Hi'', True), (''why?'', False), (''there'', False)] \<and>
   map (\<lambda>m. (content m, flagged m))
     (classroomMessages
        (run [(3, Msg (Bot_text (Some ''Hi''))),
              (4, Msg (Bot_response ''Hi there'' None)),
              (5, Msg (Transcription ''why?'' None (Some ''Bob'')))] demo_active)) =
     [(''Hi there'', False), (''why?'', False)]"
  by code_simp
section \<open>Who is the speaker\<close>

text \<open>
  C1. With a room \<open>r\<close> and a self record \<open>u\<close> in the stores, \<open>isSpeaker\<close> is true exactly
  when \<open>r.speaker_id\<close> is \<open>u.user_id\<close>; without a room or without a self record it is
  false. \<open>token_changed\<close> writes the room store and then the self store: in the state
  between the two writes and in the state after both, \<open>isSpeaker\<close> is again true exactly
  when the speaker id of the room (now the one of the event) is the user id of self. There
  is no other intermediate state.
\<close>

theorem isSpeaker_tracks_speaker_id:
  "isSpeaker (s\<lparr>classroomRoom := Some r, classroomSelf := Some u\<rparr>) =
     (speaker_id r = Some (user_id u)) \<and>
   \<not> isSpeaker (s\<lparr>classroomRoom := None\<rparr>) \<and>
   \<not> isSpeaker (s\<lparr>classroomSelf := None\<rparr>) \<and>
   classroomRoom (token_changed_room sid sname (s\<lparr>classroomRoom := Some r, classroomSelf := Some u\<rparr>)) =
     Some (r\<lparr>speaker_id := sid, speaker_name := sname\<rparr>) \<and>
   classroomSelf (token_changed_room sid sname (s\<lparr>classroomRoom := Some r, classroomSelf := Some u\<rparr>)) =
     Some u \<and>
   isSpeaker (token_changed_room sid sname (s\<lparr>classroomRoom := Some r, classroomSelf := Some u\<rparr>)) =
     (sid = Some (user_id u)) \<and>
   step now (Msg (Token_changed sid sname)) (s\<lparr>classroomRoom := Some r, classroomSelf := Some u\<rparr>) =
     token_changed_self sid
       (token_changed_room sid sname (s\<lparr>classroomRoom := Some r, classroomSelf := Some u\<rparr>)) \<and>
   classroomRoom
     (step now (Msg (Token_changed sid sname)) (s\<lparr>classroomRoom := Some r, classroomSelf := Some u\<rparr>)) =
     Some (r\<lparr>speaker_id := sid, speaker_name := sname\<rparr>) \<and>
   classroomSelf
     (step now (Msg (Token_changed sid sname)) (s\<lparr>classroomRoom := Some r, classroomSelf := Some u\<rparr>)) =
     Some (u\<lparr>is_speaker := (Some (user_id u) = sid)\<rparr>) \<and>
   isSpeaker
     (step now (Msg (Token_changed sid sname)) (s\<lparr>classroomRoom := Some r, classroomSelf := Some u\<rparr>)) =
     (sid = Some (user_id u)) \<and>
   \<not> isSpeaker (step now (Msg (Token_changed sid sname)) (s\<lparr>classroomRoom := None\<rparr>)) \<and>
   \<not> isSpeaker (step now (Msg (Token_changed sid sname)) (s\<lparr>classroomSelf := None\<rparr>))"
  by (auto simp: isSpeaker_def token_changed_room_def token_changed_self_def deliver_def
      split: option.splits)

theorem isSpeaker_tracks_speaker_id_witness:
  "\<not> isSpeaker demo_active \<and>
   isSpeaker (token_changed_room (Some ''u1'') (Some ''Ann'') demo_active) \<and>
   isSpeaker (step 3 (Msg (Token_changed (Some ''u1'') (Some ''Ann''))) demo_active) \<and>
   \<not> isSpeaker
      (step 4 (Msg (Token_changed (Some ''u2'') (Some ''Bob'')))
         (step 3 (Msg (Token_changed (Some ''u1'') (Some ''Ann''))) demo_active))"
proof -
  have r: "demo_active = demo_active\<lparr>classroomRoom := Some demo_room, classroomSelf := Some demo_user\<rparr>"
    by code_simp
  have u: "user_id demo_user = ''u1''" "speaker_id demo_room = Some ''u2''"
    by (simp_all add: demo_user_def demo_room_def)
  note T = isSpeaker_tracks_speaker_id [where s = demo_active and r = demo_room and u = demo_user
      and sid = "Some ''u1''" and sname = "Some ''Ann''" and now = 3, unfolded r [symmetric]]
  from T have "isSpeaker demo_active = (speaker_id demo_room = Some (user_id demo_user))"
    by blast
  then have a: "\<not> isSpeaker demo_active" by (simp add: u)
  from T have "isSpeaker (token_changed_room (Some ''u1'') (Some ''Ann'') demo_active) =
      (Some ''u1'' = Some (user_id demo_user))" by blast
  then have b: "isSpeaker (token_changed_room (Some ''u1'') (Some ''Ann'') demo_active)"
    by (simp add: u)
  from T have "isSpeaker (step 3 (Msg (Token_changed (Some ''u1'') (Some ''Ann''))) demo_active) =
      (Some ''u1'' = Some (user_id demo_user))" by blast
  then have c: "isSpeaker (step 3 (Msg (Token_changed (Some ''u1'') (Some ''Ann''))) demo_active)"
    by (simp add: u)
  have d: "\<not> isSpeaker
      (step 4 (Msg (Token_changed (Some ''u2'') (Some ''Bob'')))
         (step 3 (Msg (Token_changed (Some ''u1'') (Some ''Ann''))) demo_active))"
    by code_simp
  from a b c d show ?thesis by (intro conjI)
qed

section \<open>Hand raises\<close>

lemma all_raises_raised:
  "all_raises (handleWsMessage now (Hand_raised raise) s) =
     (if classroomRoom s = None then []
      else if find (\<lambda>hr. hr_id hr = hr_id raise) (all_raises s) = None
      then all_raises s @ [raise] else all_raises s)"
  by (simp add: all_raises_def update_room_def add_raise_def raises_of_def split: option.splits)

lemma all_raises_lowered:
  "all_raises (handleWsMessage now (Hand_lowered u) s) =
     filter (\<lambda>hr. \<not> (hr_user_id hr = u \<and> status hr = Pending)) (all_raises s)"
  by (simp add: all_raises_def update_room_def lower_raises_def raises_of_def Let_def
      split: option.splits)

lemma pending_users_raised:
  assumes "hr_user_id raise \<notin> set (pending_users s)" and "distinct (pending_users s)"
  shows "distinct (pending_users (handleWsMessage now (Hand_raised raise) s))"
proof -
  have "pending_users (handleWsMessage now (Hand_raised raise) s) = [] \<or>
        pending_users (handleWsMessage now (Hand_raised raise) s) = pending_users s \<or>
        pending_users (handleWsMessage now (Hand_raised raise) s) =
          pending_users s @ [hr_user_id raise]"
    unfolding pending_users_def all_raises_raised by simp
  with assms show ?thesis by auto
qed

lemma pending_users_lowered:
  assumes "distinct (pending_users s)"
  shows "distinct (pending_users (handleWsMessage now (Hand_lowered u) s))"
proof -
  have comm: "filter A (filter B xs) = filter B (filter A xs)"
    for A B :: "HandRaise \<Rightarrow> bool" and xs
    by (simp add: conj_commute)
  show ?thesis
    unfolding pending_users_def all_raises_lowered comm [of "\<lambda>hr. status hr = Pending"]
    using assms [unfolded pending_users_def] by (rule distinct_map_filter)
qed

lemma filter_eq_distinct: "distinct xs \<Longrightarrow> length (filter (\<lambda>x. x = u) xs) \<le> Suc 0"
  by (induction xs) (auto simp: filter_empty_conv)

lemma pending_of_le_one:
  assumes "distinct (pending_users s)"
  shows "length (pending_of u s) \<le> 1"
proof -
  have "map hr_user_id (pending_of u s) = filter (\<lambda>x. x = u) (pending_users s)"
    unfolding pending_of_def pending_users_def by (simp add: filter_map comp_def conj_commute)
  then have "length (pending_of u s) = length (filter (\<lambda>x. x = u) (pending_users s))"
    by (metis length_map)
  with filter_eq_distinct [OF assms, of u] show ?thesis by simp
qed

lemma raise_after_lower_run:
  "distinct (pending_users s) \<Longrightarrow> raise_after_lower evs s \<Longrightarrow> k \<le> length evs \<Longrightarrow>
   distinct (pending_users (run (take k evs) s))"
proof (induction evs s arbitrary: k rule: raise_after_lower.induct)
  case (2 t raise rest s)
  show ?case
  proof (cases k)
    case 0
    with 2 show ?thesis by simp
  next
    case (Suc j)
    from "2.prems"(2) have nin: "hr_user_id raise \<notin> set (pending_users s)" by simp
    have "distinct (pending_users (handleWsMessage t (Hand_raised raise) s))"
      by (rule pending_users_raised [OF nin "2.prems"(1)])
    with 2 Suc show ?thesis by (simp add: deliver_def del: handleWsMessage.simps)
  qed
next
  case (3 t u rest s)
  show ?case
  proof (cases k)
    case 0
    with 3 show ?thesis by simp
  next
    case (Suc j)
    have "distinct (pending_users (handleWsMessage t (Hand_lowered u) s))"
      by (rule pending_users_lowered [OF "3.prems"(1)])
    with 3 Suc show ?thesis by (simp add: deliver_def del: handleWsMessage.simps)
  qed
qed simp_all

lemma hand_raised_known_id:
  assumes "list_ex (\<lambda>hr. hr_id hr = hr_id raise) (all_raises s)"
  shows "handleWsMessage now (Hand_raised raise) s = s"
proof (cases "classroomRoom s")
  case None
  with assms show ?thesis by (simp add: all_raises_def)
next
  case (Some r)
  show ?thesis
  proof (cases "hand_raises r")
    case None
    with assms Some show ?thesis by (simp add: all_raises_def raises_of_def)
  next
    case hs: (Some hs)
    from assms Some hs have "find (\<lambda>hr. hr_id hr = hr_id raise) hs \<noteq> None"
      by (auto simp: all_raises_def raises_of_def list_ex_iff find_None_iff)
    with hs have "add_raise raise r = r"
      by (simp add: add_raise_def raises_of_def)
    with Some show ?thesis by (simp add: update_room_def)
  qed
qed

text \<open>
  C2, as the code has it. In a run of \<open>hand_raised\<close> and \<open>hand_lowered\<close> events in which
  every \<open>hand_raised\<close> arrives while the room state holds no pending record of its user,
  the room state holds at most one pending record per user after every event. The page
  itself compares raise ids only: a \<open>hand_raised\<close> whose id is already in the list changes
  nothing, and \<open>hand_lowered\<close> removes every pending record of the user. While the local
  hand is raised the hand button sends \<open>hand_lower\<close>; \<open>handleRaiseHand\<close> sends
  \<open>hand_raise\<close> whenever the socket is open.
\<close>

theorem pending_hand_raises:
  "(distinct (pending_users s) \<and> raise_after_lower evs s \<longrightarrow>
      (\<forall>k \<le> length evs. \<forall>u. length (pending_of u (run (take k evs) s)) \<le> 1)) \<and>
   (list_ex (\<lambda>hr. hr_id hr = hr_id raise) (all_raises s) \<longrightarrow>
      step t (Msg (Hand_raised raise)) s = s) \<and>
   pending_of u (step t (Msg (Hand_lowered u)) s) = [] \<and>
   (isHandRaised s \<and> ws_open s \<longrightarrow>
      fx (step t Hand_button s) = fx s @ [WsSend Out_hand_lower] \<and>
      \<not> isHandRaised (step t Hand_button s)) \<and>
   (ws_open s \<longrightarrow>
      fx (step t (Raise_hand q) s) = fx s @ [WsSend (Out_hand_raise (js_or q ''''))])"
proof -
  have a: "length (pending_of v (run (take k evs) s)) \<le> 1"
    if "distinct (pending_users s) \<and> raise_after_lower evs s" and "k \<le> length evs" for k v
    using that by (intro pending_of_le_one raise_after_lower_run) simp_all
  have b: "step t (Msg (Hand_raised raise)) s = s"
    if "list_ex (\<lambda>hr. hr_id hr = hr_id raise) (all_raises s)"
    using hand_raised_known_id [OF that] by (simp add: deliver_def del: handleWsMessage.simps)
  have c: "pending_of u (step t (Msg (Hand_lowered u)) s) = []"
    by (simp add: deliver_def pending_of_def all_raises_lowered filter_empty_conv
        del: handleWsMessage.simps)
  have d: "fx (step t Hand_button s) = fx s @ [WsSend Out_hand_lower] \<and>
           \<not> isHandRaised (step t Hand_button s)" if "isHandRaised s \<and> ws_open s"
    using that by (simp add: hand_button_click_def handleLowerHand_def emit_def)
  have e: "fx (step t (Raise_hand q) s) = fx s @ [WsSend (Out_hand_raise (js_or q ''''))]"
    if "ws_open s"
    using that by (simp add: handleRaiseHand_def emit_def)
  from a b c d e show ?thesis by blast
qed

theorem pending_hand_raises_witness:
  "distinct (pending_users demo_active) \<and>
   raise_after_lower
     [(3, Msg (Hand_raised (demo_raise ''r1'' ''u1''))), (4, Msg (Hand_lowered ''u1'')),
      (5, Msg (Hand_raised (demo_raise ''r2'' ''u1'')))] demo_active \<and>
   length
     (pending_of ''u1''
        (run [(3, Msg (Hand_raised (demo_raise ''r1'' ''u1''))), (4, Msg (Hand_lowered ''u1'')),
              (5, Msg (Hand_raised (demo_raise ''r2'' ''u1'')))] demo_active)) \<le> 1 \<and>
   list_ex (\<lambda>hr. hr_id hr = hr_id (demo_raise ''r1'' ''u1''))
     (all_raises (step 3 (Msg (Hand_raised (demo_raise ''r1'' ''u1''))) demo_active)) \<and>
   isHandRaised (step 3 (Raise_hand None) demo_active) \<and>
   ws_open (step 3 (Raise_hand None) demo_active) \<and>
   \<not> isHandRaised (step 4 Hand_button (step 3 (Raise_hand None) demo_active))"
proof -
  let ?evs = "[(3, Msg (Hand_raised (demo_raise ''r1'' ''u1''))), (4, Msg (Hand_lowered ''u1'')),
               (5 :: nat, Msg (Hand_raised (demo_raise ''r2'' ''u1'')))]"
  let ?s = "step 3 (Raise_hand None) demo_active"
  have h1: "distinct (pending_users demo_active)" by code_simp
  have h2: "raise_after_lower ?evs demo_active" by code_simp
  have h3: "list_ex (\<lambda>hr. hr_id hr = hr_id (demo_raise ''r1'' ''u1''))
     (all_raises (step 3 (Msg (Hand_raised (demo_raise ''r1'' ''u1''))) demo_active))"
    by code_simp
  have h4: "isHandRaised ?s" "ws_open ?s" by code_simp+
  have k: "take 3 ?evs = ?evs" "(3 :: nat) \<le> length ?evs" by simp_all
  from pending_hand_raises [where s = demo_active and evs = ?evs] h1 h2 k(2)
  have "length (pending_of ''u1'' (run (take 3 ?evs) demo_active)) \<le> 1" by blast
  then have c1: "length (pending_of ''u1'' (run ?evs demo_active)) \<le> 1" by (simp only: k(1))
  from pending_hand_raises [where s = ?s and t = 4] h4
  have c2: "\<not> isHandRaised (step 4 Hand_button ?s)" by blast
  from h1 h2 c1 h3 h4 c2 show ?thesis by (intro conjI)
qed

text \<open>
  The claim as stated fails: two \<open>hand_raised\<close> events with different ids for one user
  leave two pending records of that user, and a second call of \<open>handleRaiseHand\<close> sends
  a second \<open>hand_raise\<close>.
\<close>

theorem pending_hand_raises_counterexample:
  "length
     (pending_of ''u1''
        (run [(3, Msg (Hand_raised (demo_raise ''r1'' ''u1''))),
              (4, Msg (Hand_raised (demo_raise ''r2'' ''u1'')))] demo_active)) = 2 \<and>
   fx (run [(3, Raise_hand None), (4, Raise_hand None)] demo_active) =
     fx demo_active @ [WsSend (Out_hand_raise ''''), WsSend (Out_hand_raise '''')]"
  by code_simp

section \<open>Opting out of audio\<close>

lemma started_append: "started (es @ fs) = started es @ started fs"
  by (induction es rule: started.induct) simp_all

lemma started_emit:
  "started (fx (emit e s)) = started (fx s) @ started [e]"
  by (simp add: emit_def started_append)

lemma quiet_playNextChunk:
  "quiet s \<Longrightarrow>
   quiet (state_after (playNextChunk s)) \<and>
   started (fx (state_after (playNextChunk s))) = started (fx s)"
  by (simp add: quiet_def playNextChunk_def)

lemma quiet_update_room [simp]:
  "quiet (update_room f s) = quiet s" "fx (update_room f s) = fx s"
  by (simp_all add: quiet_def update_room_def)

lemma quiet_update_self [simp]:
  "quiet (update_self f s) = quiet s" "fx (update_self f s) = fx s"
  by (simp_all add: quiet_def update_self_def)

lemma quiet_addClassroomMessage [simp]:
  "quiet (addClassroomMessage now r c sn tr db s) = quiet s"
  "fx (addClassroomMessage now r c sn tr db s) = fx s"
  by (simp_all add: quiet_def addClassroomMessage_def)

lemma quiet_handleLeaveRoom:
  "quiet s \<Longrightarrow> quiet (handleLeaveRoom s) \<and> started (fx (handleLeaveRoom s)) = started (fx s)"
  by (simp add: quiet_def handleLeaveRoom_def Let_def stopAudioPlayback_def emit_def
      disconnectSpeakerPipeline_def resetClassroom_def started_append split: option.splits)

lemma quiet_handleWsMessage:
  assumes "quiet s" and "keeps_text_only (Msg m)"
  shows "quiet (handleWsMessage now m s) \<and>
         started (fx (handleWsMessage now m s)) = started (fx s)"
proof (cases m)
  case (Joined room you recent)
  with assms show ?thesis
    by (cases "parse_mode (mode you)"; cases "the (parse_mode (mode you))")
       (simp_all add: on_joined_def Let_def sync_mode_def quiet_def emit_def started_append)
next
  case (Mode_changed md)
  with assms show ?thesis
    by (cases "parse_mode md"; cases "the (parse_mode md)")
       (simp_all add: Let_def sync_mode_def quiet_def emit_def started_append
          stopAudioPlayback_def update_self_def)
next
  case (Kicked msg)
  with assms show ?thesis using quiet_handleLeaveRoom [of "s\<lparr>classroomError := js_or msg ''You were removed from the room''\<rparr>"]
    by (simp add: quiet_def)
next
  case Bot_audio_start
  with assms show ?thesis by (simp add: quiet_def)
qed (use assms in \<open>simp_all add: token_changed_self_def token_changed_room_def
       resolve_raise_def updateMessageReaction_def Let_def\<close>,
     simp_all add: quiet_def update_room_def update_self_def)

lemma quiet_user_spoke:
  "quiet s \<Longrightarrow> quiet (user_spoke now t final cleanText s) \<and>
     started (fx (user_spoke now t final cleanText s)) = started (fx s)"
  by (simp add: user_spoke_def quiet_def ws_send_def emit_def started_append
      addClassroomMessage_def)

lemma quiet_handleJsonMsg:
  "quiet s \<Longrightarrow> quiet (handleJsonMsg now m s) \<and>
     started (fx (handleJsonMsg now m s)) = started (fx s)"
proof (cases m)
  case (Bridge_user_transcript t final cleanText)
  assume q: "quiet s"
  show ?thesis
  proof (cases "speakerPipecat s")
    case None
    with q show ?thesis by (simp add: handleJsonMsg_def)
  next
    case (Some client)
    let ?fin = "case final of None \<Rightarrow> True | Some b \<Rightarrow> b"
    have "quiet (s\<lparr>speakerPipecat := x\<rparr>)" for x using q by (simp add: quiet_def)
    from quiet_user_spoke [OF this, of now "js_or t ''''" ?fin cleanText]
    show ?thesis using q Some Bridge_user_transcript
      by (simp add: handleJsonMsg_def Let_def)
  qed
qed (cases "speakerPipecat s";
     simp add: handleJsonMsg_def Let_def set_botTranscript_def turn_finished_def quiet_def
        addClassroomMessage_def)+

lemma quiet_disconnectSpeakerPipeline:
  "quiet s \<Longrightarrow> quiet (disconnectSpeakerPipeline s) \<and>
     started (fx (disconnectSpeakerPipeline s)) = started (fx s)"
  by (simp add: disconnectSpeakerPipeline_def Let_def quiet_def emit_def started_append)

lemma quiet_connectSpeakerPipeline:
  "quiet s \<Longrightarrow> quiet (connectSpeakerPipeline s) \<and>
     started (fx (connectSpeakerPipeline s)) = started (fx s)"
  by (simp add: connectSpeakerPipeline_def quiet_def emit_def started_append
      split: option.splits)

lemma quiet_react:
  assumes "quiet s"
  shows "quiet (react a b c s) \<and> started (fx (react a b c s)) = started (fx s)"
proof -
  define s1 where "s1 = (if a \<and> \<not> isSpeaker s then s\<lparr>speakerMode := Text\<rparr> else s)"
  define s2 where "s2 = (if b \<and> isSpeaker s1 \<and> classroomState s1 = Active \<and>
                            speakerMode s1 = Voice \<and> speakerPipecat s1 = None
                         then connectSpeakerPipeline s1 else s1)"
  have r: "react a b c s =
             (if c \<and> (\<not> isSpeaker s2 \<or> speakerMode s2 = Text) \<and> speakerPipecat s2 \<noteq> None
              then disconnectSpeakerPipeline s2 else s2)"
    by (simp only: react_def Let_def s1_def s2_def)
  from assms have q1: "quiet s1 \<and> started (fx s1) = started (fx s)"
    by (simp add: s1_def quiet_def)
  with quiet_connectSpeakerPipeline [of s1]
  have q2: "quiet s2 \<and> started (fx s2) = started (fx s)" by (simp add: s2_def)
  with quiet_disconnectSpeakerPipeline [of s2] show ?thesis unfolding r by simp
qed

lemma quiet_connect_failed:
  assumes "quiet s"
  shows "quiet (connect_failed message s) \<and>
         started (fx (connect_failed message s)) = started (fx s)"
proof -
  have "quiet (s\<lparr>speakerError := e\<rparr>)" for e using assms by (simp add: quiet_def)
  from quiet_disconnectSpeakerPipeline [OF this] show ?thesis
    by (simp add: connect_failed_def)
qed

lemma quiet_step:
  assumes "quiet s" and "keeps_text_only i"
  shows "quiet (step now i s) \<and> started (fx (step now i s)) = started (fx s)"
proof (cases i)
  case (Frame d)
  show ?thesis
  proof (cases d)
    case (ArrayBufferData raw)
    with Frame assms show ?thesis by (simp add: deliver_def quiet_def)
  next
    case (BlobData raw)
    with Frame assms show ?thesis by (simp add: deliver_def quiet_def)
  next
    case (TextData mo)
    show ?thesis
    proof (cases mo)
      case None
      with Frame TextData assms show ?thesis by (simp add: deliver_def)
    next
      case (Some m)
      with Frame TextData assms quiet_handleWsMessage [of s m now] show ?thesis
        by (simp add: deliver_def del: handleWsMessage.simps)
    qed
  qed
next
  case Blob_resolved
  with assms show ?thesis by (simp add: blob_resolved_def quiet_def)
next
  case Source_ended
  with assms quiet_playNextChunk [of s] show ?thesis by (simp add: source_ended_def)
next
  case Resume_resolved
  with assms show ?thesis by (simp add: resume_resolved_def quiet_def playNextChunk_def)
next
  case (Bridge m)
  with assms quiet_handleJsonMsg [of s now m] show ?thesis by simp
next
  case Leave
  with assms quiet_handleLeaveRoom [of s] show ?thesis by simp
next
  case (Join socket timer)
  with assms show ?thesis
    by (simp add: handleJoinRoom_def Let_def quiet_def emit_def started_append
        split: sum.splits)
next
  case (Reactive a b c)
  with assms quiet_react [of s a b c] show ?thesis by simp
next
  case (Connect_failed message)
  with assms quiet_connect_failed [of s message] show ?thesis by simp
next
  case Socket_close
  with assms show ?thesis
    by (simp add: ws_onclose_def quiet_def disconnectSpeakerPipeline_def emit_def
        started_append)
qed (use assms in \<open>simp_all add: quiet_def handleSetPlaybackMode_def Let_def
       stopAudioPlayback_def ws_send_def emit_def started_append handleSendMessage_def
       addClassroomMessage_def handleRaiseHand_def handleLowerHand_def hand_button_click_def
       poll_tick_def poll_resolved_def lobby_tick_def lobby_resolved_def ws_onopen_def
       ws_onerror_def handleToggleMode_def split: option.splits list.splits sum.splits\<close>)

lemma quiet_run:
  "quiet s \<Longrightarrow> list_all (\<lambda>e. keeps_text_only (snd e)) evs \<Longrightarrow>
   quiet (run evs s) \<and> started (fx (run evs s)) = started (fx s)"
proof (induction evs arbitrary: s)
  case Nil
  then show ?case by simp
next
  case (Cons e evs)
  obtain now i where e: "e = (now, i)" by (cases e)
  from Cons.prems e have k: "keeps_text_only i"
    and rest: "list_all (\<lambda>e. keeps_text_only (snd e)) evs" by simp_all
  from quiet_step [OF Cons.prems(1) k, of now]
  have q: "quiet (step now i s)" and f: "started (fx (step now i s)) = started (fx s)"
    by simp_all
  from Cons.IH [OF q rest] f e show ?case by simp
qed

text \<open>
  C6. Switching the playback mode to text-only leaves the queue empty and the playing
  flag cleared, starts no source, and gives the same state whatever the queue held: the
  flushed chunks are gone. From then on, as long as the mode is not switched back and no
  \<open>Blob\<close> read was still pending at the switch, no input (frames of either kind, the
  callbacks of the audio pipeline, any other message or action) puts a chunk in the queue
  or starts a source. A binary frame that arrives in text-only mode leaves the state as it
  is.
\<close>

theorem text_only_flushes_audio:
  "audioQueue (handleSetPlaybackMode Text_only s) = [] \<and>
   \<not> isPlayingAudio (handleSetPlaybackMode Text_only s) \<and>
   userMode (handleSetPlaybackMode Text_only s) = Text_only \<and>
   started (fx (handleSetPlaybackMode Text_only s)) = started (fx s) \<and>
   handleSetPlaybackMode Text_only (s\<lparr>audioQueue := q, isPlayingAudio := p\<rparr>) =
     handleSetPlaybackMode Text_only s \<and>
   (pendingBlobs s = [] \<and> list_all (\<lambda>e. keeps_text_only (snd e)) evs \<longrightarrow>
      audioQueue (run evs (handleSetPlaybackMode Text_only s)) = [] \<and>
      started (fx (run evs (handleSetPlaybackMode Text_only s))) = started (fx s)) \<and>
   (userMode s = Text_only \<longrightarrow>
      onmessage now (ArrayBufferData raw) s = Inr s \<and>
      onmessage now (BlobData raw) s = Inr s)"
proof -
  let ?s = "handleSetPlaybackMode Text_only s"
  have a: "audioQueue ?s = []" "\<not> isPlayingAudio ?s" "userMode ?s = Text_only"
    "started (fx ?s) = started (fx s)" "pendingBlobs ?s = pendingBlobs s"
    by (simp_all add: handleSetPlaybackMode_def Let_def stopAudioPlayback_def ws_send_def
        emit_def started_append)
  have b: "handleSetPlaybackMode Text_only (s\<lparr>audioQueue := q, isPlayingAudio := p\<rparr>) = ?s"
    by (simp add: handleSetPlaybackMode_def Let_def stopAudioPlayback_def ws_send_def
        emit_def ws_open_def)
  have c: "audioQueue (run evs ?s) = [] \<and> started (fx (run evs ?s)) = started (fx s)"
    if h: "pendingBlobs s = [] \<and> list_all (\<lambda>e. keeps_text_only (snd e)) evs"
  proof -
    from a h have "quiet ?s" by (simp add: quiet_def)
    from quiet_run [OF this] h a(4) show ?thesis by (simp add: quiet_def)
  qed
  have d: "onmessage now (ArrayBufferData raw) s = Inr s \<and>
           onmessage now (BlobData raw) s = Inr s" if "userMode s = Text_only"
    using that by simp
  from a b c d show ?thesis by blast
qed

theorem text_only_flushes_audio_witness:
  "length
     (audioQueue
        (run [(3, Frame (ArrayBufferData [0, 64, 0, 192])), (4, Frame (ArrayBufferData [255, 127]))]
           demo_active)) = 2 \<and>
   pendingBlobs
     (run [(3, Frame (ArrayBufferData [0, 64, 0, 192])), (4, Frame (ArrayBufferData [255, 127]))]
        demo_active) = [] \<and>
   list_all (\<lambda>e. keeps_text_only (snd e))
     [(6 :: nat, Frame (ArrayBufferData [0, 64])), (7, Resume_resolved), (8, Source_ended),
      (9, Frame (BlobData [0, 64])), (10, Blob_resolved)] \<and>
   audioQueue
     (run [(6, Frame (ArrayBufferData [0, 64])), (7, Resume_resolved), (8, Source_ended),
           (9, Frame (BlobData [0, 64])), (10, Blob_resolved)]
        (handleSetPlaybackMode Text_only
           (run [(3, Frame (ArrayBufferData [0, 64, 0, 192])),
                 (4, Frame (ArrayBufferData [255, 127]))] demo_active))) = [] \<and>
   started
     (fx (run [(6, Frame (ArrayBufferData [0, 64])), (7, Resume_resolved), (8, Source_ended),
               (9, Frame (BlobData [0, 64])), (10, Blob_resolved)]
            (handleSetPlaybackMode Text_only
               (run [(3, Frame (ArrayBufferData [0, 64, 0, 192])),
                     (4, Frame (ArrayBufferData [255, 127]))] demo_active)))) = []"
proof -
  let ?s = "run [(3, Frame (ArrayBufferData [0, 64, 0, 192])),
                 (4, Frame (ArrayBufferData [255, 127]))] demo_active"
  let ?evs = "[(6 :: nat, Frame (ArrayBufferData [0, 64])), (7, Resume_resolved),
               (8, Source_ended), (9, Frame (BlobData [0, 64])), (10, Blob_resolved)]"
  have h0: "length (audioQueue ?s) = 2" by code_simp
  have h1: "pendingBlobs ?s = []" by code_simp
  have h2: "list_all (\<lambda>e. keeps_text_only (snd e)) ?evs" by code_simp
  have h3: "started (fx ?s) = []" by code_simp
  from text_only_flushes_audio [where s = ?s and evs = ?evs] h1 h2
  have "audioQueue (run ?evs (handleSetPlaybackMode Text_only ?s)) = [] \<and>
        started (fx (run ?evs (handleSetPlaybackMode Text_only ?s))) = started (fx ?s)"
    by blast
  with h0 h1 h2 h3 show ?thesis by (simp only: simp_thms)
qed

section \<open>The room poll\<close>

text \<open>
  C8. The answer of a room poll replaces the room record as a whole. The tick of the room
  poll has no in-flight flag: with the page active in a room, a second tick while the
  first \<open>getRoom\<close> is unanswered sends a second request. The lobby poll, in contrast,
  skips its second tick.
\<close>

theorem room_poll_overlaps:
  "roomRequests (run [(3000, Poll_tick), (6000, Poll_tick)] demo_active) =
     [''room-1'', ''room-1''] \<and>
   fx (run [(3000, Poll_tick), (6000, Poll_tick)] demo_active) =
     fx demo_active @ [FetchRoom ''room-1'', FetchRoom ''room-1''] \<and>
   fx (run [(1000, Lobby_tick), (2000, Lobby_tick)] initial) =
     [RefreshRooms, RefreshTeacherAccess] \<and>
   classroomRoom
     (run [(3000, Poll_tick), (3500, Poll_resolved (Inr (demo_room\<lparr>user_count := 2\<rparr>)))]
        demo_active) = Some (demo_room\<lparr>user_count := 2\<rparr>)"
  by code_simp

section \<open>Leaving and being removed\<close>

lemma resetClassroom_fields:
  "classroomState (resetClassroom s) = Lobby"
  "classroomRoom (resetClassroom s) = None"
  "classroomSelf (resetClassroom s) = None"
  "classroomError (resetClassroom s) = ''''"
  "classroomTopics (resetClassroom s) = []"
  "\<not> isHandRaised (resetClassroom s)"
  "currentLessonTopic (resetClassroom s) = ''''"
  "classroomWs (resetClassroom s) = None"
  by (simp_all add: resetClassroom_def Let_def emit_def split: option.splits)

lemma resetClassroom_fx:
  "fx (resetClassroom s) =
     fx s @ (case classroomWs s of
               None \<Rightarrow> []
             | Some ws \<Rightarrow> if readyState ws \<le> OPEN then [WsClose] else [])"
  by (simp add: resetClassroom_def Let_def emit_def split: option.splits)

lemma kicked_overwritten:
  "handleLeaveRoom (s\<lparr>classroomError := e\<rparr>) = handleLeaveRoom s"
  by (simp add: handleLeaveRoom_def Let_def stopAudioPlayback_def emit_def
      disconnectSpeakerPipeline_def resetClassroom_def split: option.splits)

text \<open>
  The state in which \<open>handleLeaveRoom\<close> returns. It clears the interval whose handle is
  in \<open>pollInterval\<close>, empties the audio queue and closes the audio context, disconnects
  the voice bridge, puts every store back to its initial value and closes the socket of
  \<open>classroomWs\<close> when it is connecting or open; these are its only calls into the browser
  besides the refresh of the room list, in this order. A \<open>kicked\<close> message ends in
  exactly the same state. In that state a tick of a room poll timer, the \<open>onclose\<close> of
  the socket and the \<open>onended\<close> of an audio source change nothing.
\<close>

lemma leave_at_return:
  "pollInterval (handleLeaveRoom s) = None \<and>
   audioQueue (handleLeaveRoom s) = [] \<and>
   \<not> isPlayingAudio (handleLeaveRoom s) \<and>
   audioContext (handleLeaveRoom s) = None \<and>
   speakerPipecat (handleLeaveRoom s) = None \<and>
   speakerUnsubs (handleLeaveRoom s) = 0 \<and>
   \<not> speakerConnected (handleLeaveRoom s) \<and>
   \<not> speakerListening (handleLeaveRoom s) \<and>
   speakerError (handleLeaveRoom s) = None \<and>
   speakerBotText (handleLeaveRoom s) = '''' \<and>
   speakerUserText (handleLeaveRoom s) = '''' \<and>
   classroomWs (handleLeaveRoom s) = None \<and>
   classroomState (handleLeaveRoom s) = classroomState initial \<and>
   classroomRoom (handleLeaveRoom s) = classroomRoom initial \<and>
   classroomSelf (handleLeaveRoom s) = classroomSelf initial \<and>
   classroomMessages (handleLeaveRoom s) = classroomMessages initial \<and>
   classroomError (handleLeaveRoom s) = classroomError initial \<and>
   classroomTopics (handleLeaveRoom s) = classroomTopics initial \<and>
   isHandRaised (handleLeaveRoom s) = isHandRaised initial \<and>
   currentLessonTopic (handleLeaveRoom s) = currentLessonTopic initial \<and>
   \<not> isSpeaker (handleLeaveRoom s) \<and>
   \<not> isTeacher (handleLeaveRoom s) \<and>
   fx (handleLeaveRoom s) =
     fx s @
     (case pollInterval s of None \<Rightarrow> [] | Some t \<Rightarrow> [ClearInterval t]) @
     (case audioContext s of None \<Rightarrow> [] | Some c \<Rightarrow> [AudioContextClose]) @
     (if speakerPipecat s \<noteq> None then [PipecatDisconnect] else []) @
     (case classroomWs s of
        None \<Rightarrow> []
      | Some ws \<Rightarrow> if readyState ws \<le> OPEN then [WsClose] else []) @
     [RefreshRooms] \<and>
   step now Leave s = handleLeaveRoom s \<and>
   step now (Msg (Kicked msg)) s = handleLeaveRoom s \<and>
   poll_tick (handleLeaveRoom s) = handleLeaveRoom s \<and>
   ws_onclose (handleLeaveRoom s) = handleLeaveRoom s \<and>
   source_ended (handleLeaveRoom s) = handleLeaveRoom s"
proof -
  let ?s1 = "case pollInterval s of
               None \<Rightarrow> s
             | Some t \<Rightarrow> (emit (ClearInterval t) s)\<lparr>pollInterval := None\<rparr>"
  let ?s2 = "stopAudioPlayback ?s1"
  let ?s3 = "case audioContext ?s2 of
               None \<Rightarrow> ?s2
             | Some c \<Rightarrow> (emit AudioContextClose ?s2)\<lparr>audioContext := None\<rparr>"
  let ?s4 = "disconnectSpeakerPipeline ?s3"
  have L: "handleLeaveRoom s = emit RefreshRooms (resetClassroom ?s4)"
    by (simp add: handleLeaveRoom_def Let_def)
  have audio: "pollInterval ?s4 = None" "audioQueue ?s4 = []" "\<not> isPlayingAudio ?s4"
    "audioContext ?s4 = None" "speakerPipecat ?s4 = None" "speakerUnsubs ?s4 = 0"
    "\<not> speakerConnected ?s4" "\<not> speakerListening ?s4" "speakerError ?s4 = None"
    "speakerBotText ?s4 = ''''" "speakerUserText ?s4 = ''''"
    by (simp_all add: disconnectSpeakerPipeline_def stopAudioPlayback_def emit_def Let_def
        split: option.splits)
  have keep: "pollInterval (resetClassroom x) = pollInterval x"
    "audioQueue (resetClassroom x) = audioQueue x"
    "isPlayingAudio (resetClassroom x) = isPlayingAudio x"
    "audioContext (resetClassroom x) = audioContext x"
    "speakerPipecat (resetClassroom x) = speakerPipecat x"
    "speakerUnsubs (resetClassroom x) = speakerUnsubs x"
    "speakerConnected (resetClassroom x) = speakerConnected x"
    "speakerListening (resetClassroom x) = speakerListening x"
    "speakerError (resetClassroom x) = speakerError x"
    "speakerBotText (resetClassroom x) = speakerBotText x"
    "speakerUserText (resetClassroom x) = speakerUserText x" for x
    by (simp_all add: resetClassroom_def Let_def emit_def split: option.splits)
  have ws4: "classroomWs ?s4 = classroomWs s"
    by (simp add: disconnectSpeakerPipeline_def stopAudioPlayback_def emit_def Let_def
        split: option.splits)
  have fx4: "fx ?s4 =
      fx s @
      (case pollInterval s of None \<Rightarrow> [] | Some t \<Rightarrow> [ClearInterval t]) @
      (case audioContext s of None \<Rightarrow> [] | Some c \<Rightarrow> [AudioContextClose]) @
      (if speakerPipecat s \<noteq> None then [PipecatDisconnect] else [])"
    by (simp add: disconnectSpeakerPipeline_def stopAudioPlayback_def emit_def Let_def
        split: option.splits)
  have fields: "pollInterval (handleLeaveRoom s) = None" "audioQueue (handleLeaveRoom s) = []"
    "\<not> isPlayingAudio (handleLeaveRoom s)" "audioContext (handleLeaveRoom s) = None"
    "speakerPipecat (handleLeaveRoom s) = None" "speakerUnsubs (handleLeaveRoom s) = 0"
    "\<not> speakerConnected (handleLeaveRoom s)" "\<not> speakerListening (handleLeaveRoom s)"
    "speakerError (handleLeaveRoom s) = None" "speakerBotText (handleLeaveRoom s) = ''''"
    "speakerUserText (handleLeaveRoom s) = ''''"
    unfolding L by (simp_all add: emit_def keep audio)
  have stores: "classroomWs (handleLeaveRoom s) = None"
    "classroomState (handleLeaveRoom s) = Lobby" "classroomRoom (handleLeaveRoom s) = None"
    "classroomSelf (handleLeaveRoom s) = None" "classroomMessages (handleLeaveRoom s) = []"
    "classroomError (handleLeaveRoom s) = ''''" "classroomTopics (handleLeaveRoom s) = []"
    "\<not> isHandRaised (handleLeaveRoom s)" "currentLessonTopic (handleLeaveRoom s) = ''''"
    unfolding L by (simp_all add: emit_def resetClassroom_fields)
  have derived: "\<not> isSpeaker (handleLeaveRoom s)" "\<not> isTeacher (handleLeaveRoom s)"
    by (simp_all add: isSpeaker_def isTeacher_def stores)
  have effects: "fx (handleLeaveRoom s) =
      fx s @
      (case pollInterval s of None \<Rightarrow> [] | Some t \<Rightarrow> [ClearInterval t]) @
      (case audioContext s of None \<Rightarrow> [] | Some c \<Rightarrow> [AudioContextClose]) @
      (if speakerPipecat s \<noteq> None then [PipecatDisconnect] else []) @
      (case classroomWs s of
         None \<Rightarrow> []
       | Some ws \<Rightarrow> if readyState ws \<le> OPEN then [WsClose] else []) @
      [RefreshRooms]"
    unfolding L by (simp add: emit_def resetClassroom_fx fx4 ws4)
  have kicked: "step now (Msg (Kicked msg)) s = handleLeaveRoom s"
    by (simp add: deliver_def kicked_overwritten)
  have tick: "poll_tick (handleLeaveRoom s) = handleLeaveRoom s"
    by (simp add: poll_tick_def stores)
  have closed: "ws_onclose (handleLeaveRoom s) = handleLeaveRoom s"
    by (simp add: ws_onclose_def stores)
  have ended: "source_ended (handleLeaveRoom s) = handleLeaveRoom s"
    using fields(2,3) by (simp add: source_ended_def playNextChunk_def)
  show ?thesis
    using fields stores derived effects kicked tick closed ended
    by (simp add: initial_def del: handleWsMessage.simps)
qed

text \<open>
  C7. Leaving does not cancel everything that was started. (1) \<open>handleJoinRoom\<close> stores
  the handle of a new interval in \<open>pollInterval\<close> without clearing the one it holds, and
  \<open>onclose\<close> takes a page that lost its connection back to the lobby without clearing
  the interval: after a lost connection and a second join, leaving clears the second
  interval only and the first one goes on firing. (2) The callback of the room poll tests
  the page state before it awaits \<open>getRoom\<close> and not after: an answer that arrives
  after leaving puts the room back into \<open>classroomRoom\<close> while the page is in the
  lobby. (3) A \<open>Blob\<close> frame whose read is pending when the page leaves is queued when
  the read completes: a new audio context is created and the chunk is played in the
  lobby.
\<close>

theorem leave_leaves_callbacks:
  "(let s = run [(3, Socket_close), (4, Join (Inr \<lparr>readyState = CONNECTING\<rparr>) 8),
                 (5, Socket_open), (6, Msg (Joined demo_room demo_user None)), (7, Leave)]
              demo_active
    in (timer_calls (fx s), pollInterval s, classroomState s)) =
     ([SetInterval 7, SetInterval 8, ClearInterval 8], None, Lobby) \<and>
   (let s = run [(3000, Poll_tick), (3100, Leave), (3200, Poll_resolved (Inr demo_room))]
              demo_active
    in (classroomState s, classroomRoom s)) = (Lobby, Some demo_room) \<and>
   (let s = run [(3, Frame (BlobData [0, 64])), (4, Leave), (5, Blob_resolved),
                 (6, Resume_resolved)] demo_active
    in (classroomState s, isPlayingAudio s, audioContext s, map length (started (fx s)))) =
     (Lobby, True, Some Running, [1])"
  by code_simp
section \<open>Errors of the REST wrappers\<close>

lemmas wrapper_defs =
  createRoom_def listRooms_def getRoom_def updateRoom_def listRoomMembers_def deleteRoom_def
  manageToken_def getTeacherStatus_def requestTeacherRole_def listTeacherRoleRequests_def
  reviewTeacherRoleRequest_def listSessions_def getSession_def getSessionSummary_def
  getDashboard_def listCurriculumFiles_def getCurriculumTopics_def
  searchCurriculumConcepts_def getCurriculumContext_def

lemma throw_detail_string:
  "body res = Some (JObj kvs) \<Longrightarrow> map_of kvs ''detail'' = Some (JStr d) \<Longrightarrow> d \<noteq> '''' \<Longrightarrow>
   throw_detail fallback res = Error d"
  by (simp add: throw_detail_def get_prop_def)

lemma throw_detail_absent:
  "body res = Some (JObj kvs) \<Longrightarrow> \<not> js_truthy (map_of kvs ''detail'') \<Longrightarrow>
   throw_detail fallback res = Error fallback"
  by (simp add: throw_detail_def get_prop_def)

lemma throw_detail_not_json:
  "body res = None \<Longrightarrow>
   throw_detail fallback res = Error (if statusText res = '''' then fallback else statusText res)"
  by (simp add: throw_detail_def get_prop_def)

text \<open>
  C9, as the code has it. On a response that is not ok, the room, token and teacher
  wrappers fail with the \<open>detail\<close> of a JSON body when it is a non-empty string, with
  their own fallback message when the body is a JSON object without a (truthy) \<open>detail\<close>,
  and with the HTTP status text when the body is not JSON (the fallback only if the status
  text is empty too). \<open>getSession\<close>, \<open>getSessionSummary\<close> and \<open>getDashboard\<close> fail
  with a fixed message whatever the body says; \<open>listSessions\<close> and the curriculum
  wrappers do not fail but return an empty result. On an ok response with a JSON body the
  wrappers return the parsed body, the list wrappers its list field or the empty list, and
  \<open>deleteRoom\<close> nothing.
\<close>

theorem rest_error_messages:
  "(\<not> ok res \<and> body res = Some (JObj kvs) \<and> map_of kvs ''detail'' = Some (JStr d) \<and> d \<noteq> '''' \<longrightarrow>
      list_all (\<lambda>(fallback, wrapper). wrapper res = Inl (Error d)) detail_wrappers \<and>
      deleteRoom res = Inl (Error d)) \<and>
   (\<not> ok res \<and> body res = Some (JObj kvs) \<and> \<not> js_truthy (map_of kvs ''detail'') \<longrightarrow>
      list_all (\<lambda>(fallback, wrapper). wrapper res = Inl (Error fallback)) detail_wrappers \<and>
      deleteRoom res = Inl (Error ''Failed to delete room'')) \<and>
   (\<not> ok res \<and> body res = None \<longrightarrow>
      list_all
        (\<lambda>(fallback, wrapper).
           wrapper res = Inl (Error (if statusText res = '''' then fallback else statusText res)))
        detail_wrappers \<and>
      deleteRoom res =
        Inl (Error (if statusText res = '''' then ''Failed to delete room'' else statusText res))) \<and>
   (\<not> ok res \<longrightarrow>
      getSession res = Inl (Error ''Session not found'') \<and>
      getSessionSummary res = Inl (Error ''Failed to get session summary'') \<and>
      getDashboard res = Inl (Error ''Failed to fetch dashboard'') \<and>
      listSessions res = Inr (JArr []) \<and>
      getCurriculumTopics res = Inr (JArr []) \<and>
      searchCurriculumConcepts res = Inr (JArr []) \<and>
      listCurriculumFiles res = Inr (JObj [(''files'', JArr []), (''available'', JBool False)]) \<and>
      getCurriculumContext res = Inr JNull) \<and>
   (ok res \<and> body res = Some v \<longrightarrow>
      list_all (\<lambda>wrapper. wrapper res = Inr v) body_wrappers \<and> deleteRoom res = Inr None) \<and>
   (ok res \<and> body res = Some (JObj kvs) \<longrightarrow>
      list_all
        (\<lambda>(k, wrapper).
           wrapper res = Inr (if js_truthy (map_of kvs k) then the (map_of kvs k) else JArr []))
        field_wrappers)"
proof -
  have a: "list_all (\<lambda>(fallback, wrapper). wrapper res = Inl (Error d)) detail_wrappers \<and>
           deleteRoom res = Inl (Error d)"
    if "\<not> ok res \<and> body res = Some (JObj kvs) \<and> map_of kvs ''detail'' = Some (JStr d) \<and> d \<noteq> ''''"
    using that by (simp add: detail_wrappers_def wrapper_defs throw_detail_string [of res kvs d])
  have b: "list_all (\<lambda>(fallback, wrapper). wrapper res = Inl (Error fallback)) detail_wrappers \<and>
           deleteRoom res = Inl (Error ''Failed to delete room'')"
    if "\<not> ok res \<and> body res = Some (JObj kvs) \<and> \<not> js_truthy (map_of kvs ''detail'')"
    using that by (simp add: detail_wrappers_def wrapper_defs throw_detail_absent [of res kvs])
  have c: "list_all
        (\<lambda>(fallback, wrapper).
           wrapper res = Inl (Error (if statusText res = '''' then fallback else statusText res)))
        detail_wrappers \<and>
      deleteRoom res =
        Inl (Error (if statusText res = '''' then ''Failed to delete room'' else statusText res))"
    if "\<not> ok res \<and> body res = None"
    using that by (simp add: detail_wrappers_def wrapper_defs throw_detail_not_json)
  have d: "getSession res = Inl (Error ''Session not found'') \<and>
      getSessionSummary res = Inl (Error ''Failed to get session summary'') \<and>
      getDashboard res = Inl (Error ''Failed to fetch dashboard'') \<and>
      listSessions res = Inr (JArr []) \<and>
      getCurriculumTopics res = Inr (JArr []) \<and>
      searchCurriculumConcepts res = Inr (JArr []) \<and>
      listCurriculumFiles res = Inr (JObj [(''files'', JArr []), (''available'', JBool False)]) \<and>
      getCurriculumContext res = Inr JNull" if "\<not> ok res"
    using that by (simp add: wrapper_defs)
  have e: "list_all (\<lambda>wrapper. wrapper res = Inr v) body_wrappers \<and> deleteRoom res = Inr None"
    if "ok res \<and> body res = Some v"
    using that by (simp add: body_wrappers_def wrapper_defs res_json_def)
  have f: "list_all
        (\<lambda>(k, wrapper).
           wrapper res = Inr (if js_truthy (map_of kvs k) then the (map_of kvs k) else JArr []))
        field_wrappers" if "ok res \<and> body res = Some (JObj kvs)"
    using that
    by (simp add: field_wrappers_def wrapper_defs field_or_empty_def res_json_def get_prop_def)
  from a b c d e f show ?thesis by blast
qed

theorem rest_error_messages_witness:
  "createRoom (demo_failure (Some (JObj [(''detail'', JStr ''Only teachers may create rooms'')]))) =
     Inl (Error ''Only teachers may create rooms'') \<and>
   getRoom (demo_failure (Some (JObj []))) = Inl (Error ''Room not found'') \<and>
   manageToken (demo_failure None) = Inl (Error ''Bad Gateway'') \<and>
   listSessions (demo_failure None) = Inr (JArr []) \<and>
   getRoom \<lparr>ok = True, statusText = ''OK'', body = Some (JObj [(''room_id'', JStr ''room-1'')])\<rparr> =
     Inr (JObj [(''room_id'', JStr ''room-1'')]) \<and>
   listRooms \<lparr>ok = True, statusText = ''OK'', body = Some (JObj [(''rooms'', JArr [JStr ''a''])])\<rparr> =
     Inr (JArr [JStr ''a''])"
proof -
  let ?kv = "[(''detail'', JStr ''Only teachers may create rooms'')]"
  let ?r1 = "demo_failure (Some (JObj ?kv))"
  let ?r2 = "demo_failure (Some (JObj []))"
  let ?r3 = "demo_failure None"
  let ?r4 = "\<lparr>ok = True, statusText = ''OK'', body = Some (JObj [(''room_id'', JStr ''room-1'')])\<rparr>"
  let ?r5 = "\<lparr>ok = True, statusText = ''OK'', body = Some (JObj [(''rooms'', JArr [JStr ''a''])])\<rparr>"
  have h1: "\<not> ok ?r1 \<and> body ?r1 = Some (JObj ?kv) \<and>
            map_of ?kv ''detail'' = Some (JStr ''Only teachers may create rooms'') \<and>
            ''Only teachers may create rooms'' \<noteq> ''''"
    by (simp add: demo_failure_def)
  from rest_error_messages [where res = ?r1 and kvs = ?kv
      and d = "''Only teachers may create rooms''"] h1
  have "list_all (\<lambda>(fallback, wrapper). wrapper ?r1 = Inl (Error ''Only teachers may create rooms''))
          detail_wrappers" by blast
  then have c1: "createRoom ?r1 = Inl (Error ''Only teachers may create rooms'')"
    by (simp add: detail_wrappers_def)
  have h2: "\<not> ok ?r2 \<and> body ?r2 = Some (JObj []) \<and> \<not> js_truthy (map_of [] ''detail'')"
    by (simp add: demo_failure_def)
  from rest_error_messages [where res = ?r2 and kvs = "[]"] h2
  have "list_all (\<lambda>(fallback, wrapper). wrapper ?r2 = Inl (Error fallback)) detail_wrappers"
    by blast
  then have c2: "getRoom ?r2 = Inl (Error ''Room not found'')"
    by (simp add: detail_wrappers_def)
  have h3: "\<not> ok ?r3 \<and> body ?r3 = None" "statusText ?r3 = ''Bad Gateway''"
    by (simp_all add: demo_failure_def)
  from rest_error_messages [where res = ?r3] h3(1)
  have "list_all (\<lambda>(fallback, wrapper).
          wrapper ?r3 = Inl (Error (if statusText ?r3 = '''' then fallback else statusText ?r3)))
          detail_wrappers"
    and c4: "listSessions ?r3 = Inr (JArr [])" by blast+
  then have c3: "manageToken ?r3 = Inl (Error ''Bad Gateway'')"
    by (simp add: detail_wrappers_def h3(2))
  have h4: "ok ?r4 \<and> body ?r4 = Some (JObj [(''room_id'', JStr ''room-1'')])" by simp
  from rest_error_messages [where res = ?r4 and v = "JObj [(''room_id'', JStr ''room-1'')]"] h4
  have "list_all (\<lambda>wrapper. wrapper ?r4 = Inr (JObj [(''room_id'', JStr ''room-1'')])) body_wrappers"
    by blast
  then have c5: "getRoom ?r4 = Inr (JObj [(''room_id'', JStr ''room-1'')])"
    by (simp add: body_wrappers_def)
  have h5: "ok ?r5 \<and> body ?r5 = Some (JObj [(''rooms'', JArr [JStr ''a''])])" by simp
  from rest_error_messages [where res = ?r5 and kvs = "[(''rooms'', JArr [JStr ''a''])]"] h5
  have "list_all (\<lambda>(k, wrapper). wrapper ?r5 =
          Inr (if js_truthy (map_of [(''rooms'', JArr [JStr ''a''])] k)
               then the (map_of [(''rooms'', JArr [JStr ''a''])] k) else JArr []))
          field_wrappers" by blast
  then have c6: "listRooms ?r5 = Inr (JArr [JStr ''a''])"
    by (simp add: field_wrappers_def)
  from c1 c2 c3 c4 c5 c6 show ?thesis by (intro conjI)
qed

text \<open>
  The claim as stated fails: \<open>getSession\<close> ignores the \<open>detail\<close> of the backend,
  \<open>listSessions\<close> does not fail on a response that is not ok, and a body that is not JSON
  yields the status text, not the fallback.
\<close>

theorem rest_error_messages_counterexample:
  "getSession (demo_failure (Some (JObj [(''detail'', JStr ''Session expired'')]))) =
     Inl (Error ''Session not found'') \<and>
   listSessions (demo_failure (Some (JObj [(''detail'', JStr ''Database down'')]))) =
     Inr (JArr []) \<and>
   createRoom (demo_failure None) = Inl (Error ''Bad Gateway'')"
  by code_simp

section \<open>Properties of the PCM decoder\<close>

lemma length_int16_elements: "length (int16_elements bs) = length bs div 2"
  by (induction bs rule: int16_elements.induct) simp_all

lemma nth_int16_elements:
  "i < length bs div 2 \<Longrightarrow>
   int16_elements bs ! i = word_cat (bs ! (2 * i + 1)) (bs ! (2 * i))"
proof (induction bs arbitrary: i rule: int16_elements.induct)
  case (1 lo hi bs)
  then show ?case by (cases i) simp_all
qed simp_all

lemma length_to_float32: "length (to_float32 ws) = length ws"
  by (induction ws) simp_all

lemma nth_to_float32:
  "i < length ws \<Longrightarrow> to_float32 ws ! i = real_of_int (sint (ws ! i)) / 32768"
proof (induction ws arbitrary: i)
  case (Cons w ws)
  then show ?case by (cases i) simp_all
qed simp

lemma sample_range:
  fixes w :: int16
  shows "- 1 \<le> real_of_int (sint w) / 32768 \<and> real_of_int (sint w) / 32768 < 1"
proof -
  have lo: "- (2 ^ 15) \<le> sint w" using sint_ge [of w] by simp
  have hi: "sint w < 2 ^ 15" using sint_lt [of w] by simp
  from lo have "real_of_int (- 32768) \<le> real_of_int (sint w)"
    unfolding of_int_le_iff by simp
  then have "- 32768 \<le> real_of_int (sint w)" by (simp del: of_int_sint)
  moreover from hi have "real_of_int (sint w) < real_of_int 32768"
    unfolding of_int_less_iff by simp
  then have "real_of_int (sint w) < 32768" by (simp del: of_int_sint)
  ultimately show ?thesis by (simp del: of_int_sint)
qed

lemma decode_pcm_accepts:
  assumes "decode_pcm rawBytes = Inr float32"
  shows "float32 = to_float32 (int16_elements rawBytes)"
    and "length float32 = length rawBytes div 2"
    and "i < length float32 \<Longrightarrow>
         float32 ! i =
           real_of_int (sint (word_cat (rawBytes ! (2 * i + 1)) (rawBytes ! (2 * i)) :: int16))
             / 32768 \<and>
         - 1 \<le> float32 ! i \<and> float32 ! i < 1"
proof -
  from assms show f: "float32 = to_float32 (int16_elements rawBytes)"
    by (auto simp: decode_pcm_def Int16Array_def split: if_splits)
  show len: "length float32 = length rawBytes div 2"
    by (simp add: f length_to_float32 length_int16_elements)
  assume "i < length float32"
  with len have i: "i < length rawBytes div 2" by simp
  then have "float32 ! i = real_of_int (sint (int16_elements rawBytes ! i)) / 32768"
    by (simp add: f nth_to_float32 length_int16_elements)
  then show "float32 ! i =
           real_of_int (sint (word_cat (rawBytes ! (2 * i + 1)) (rawBytes ! (2 * i)) :: int16))
             / 32768 \<and>
         - 1 \<le> float32 ! i \<and> float32 ! i < 1"
    using sample_range [of "int16_elements rawBytes ! i"]
    by (simp add: nth_int16_elements [OF i])
qed

lemma queued_or_started:
  assumes "queueAudioChunk rawBytes s = Inr s'" and "decode_pcm rawBytes = Inr float32"
  shows "float32 \<in> set (audioQueue s') \<or> float32 \<in> set (started (fx s'))"
proof (cases "isPlayingAudio s")
  case True
  with assms show ?thesis by (auto simp: queueAudioChunk_def Let_def)
next
  case False
  let ?s1 = "s\<lparr>audioQueue := audioQueue s @ [float32]\<rparr>"
  from assms False have s': "playNextChunk ?s1 = Inr s'"
    by (auto simp: queueAudioChunk_def Let_def)
  obtain chunk rest where q: "audioQueue s @ [float32] = chunk # rest"
    by (cases "audioQueue s @ [float32]") simp_all
  then have mem: "float32 = chunk \<or> float32 \<in> set rest"
    by (metis in_set_conv_decomp set_ConsD)
  let ?s2 = "ensureAudioContext (?s1\<lparr>isPlayingAudio := True\<rparr>)"
  have aq: "audioQueue ?s2 = chunk # rest"
    using q by (simp add: ensureAudioContext_def Let_def emit_def)
  show ?thesis
  proof (cases "audioContext ?s2 = Some Suspended")
    case True
    with s' q have "s' = emit AudioContextResume ?s2"
      by (simp add: playNextChunk_def Let_def)
    then have "audioQueue s' = chunk # rest"
      using aq by (simp add: emit_def)
    with mem show ?thesis by auto
  next
    case False
    with s' q have "s' = emit (SourceStart chunk) (?s2\<lparr>audioQueue := rest\<rparr>)"
      by (simp add: playNextChunk_def Let_def split: if_splits)
    then have "audioQueue s' = rest" "started (fx s') = started (fx ?s2) @ [chunk]"
      by (simp_all add: emit_def started_append)
    with mem show ?thesis by auto
  qed
qed

text \<open>
  C10. A chunk of \<open>n\<close> bytes that \<open>queueAudioChunk\<close> accepts (an odd length makes the
  \<open>Int16Array\<close> view throw, and so does \<open>createBuffer\<close> when the chunk it is handed at
  once has no samples) is decoded to exactly \<open>n div 2\<close> samples; sample \<open>i\<close> is the
  \<open>i\<close>-th little-endian signed 16-bit integer divided by 32768 and lies in the half-open
  interval from \<open>-1\<close> to \<open>1\<close>. The decoded buffer is the one that is queued, or handed to
  the audio source at once when nothing is playing.
\<close>

theorem decode_pcm_samples:
  assumes "queueAudioChunk rawBytes s = Inr s'"
  shows "decode_pcm rawBytes = Inr (to_float32 (int16_elements rawBytes)) \<and>
         (to_float32 (int16_elements rawBytes) \<in> set (audioQueue s') \<or>
          to_float32 (int16_elements rawBytes) \<in> set (started (fx s'))) \<and>
         length (to_float32 (int16_elements rawBytes)) = length rawBytes div 2 \<and>
         (\<forall>i < length (to_float32 (int16_elements rawBytes)).
            to_float32 (int16_elements rawBytes) ! i =
              real_of_int (sint (word_cat (rawBytes ! (2 * i + 1)) (rawBytes ! (2 * i)) :: int16))
                / 32768 \<and>
            - 1 \<le> to_float32 (int16_elements rawBytes) ! i \<and>
            to_float32 (int16_elements rawBytes) ! i < 1)"
proof -
  from assms obtain float32 where d: "decode_pcm rawBytes = Inr float32"
    by (auto simp: queueAudioChunk_def split: sum.splits)
  note acc = decode_pcm_accepts [OF d]
  from d acc(1) have "decode_pcm rawBytes = Inr (to_float32 (int16_elements rawBytes))"
    by simp
  moreover from queued_or_started [OF assms d] acc(1)
  have "to_float32 (int16_elements rawBytes) \<in> set (audioQueue s') \<or>
        to_float32 (int16_elements rawBytes) \<in> set (started (fx s'))" by simp
  moreover from acc(2) acc(1)
  have "length (to_float32 (int16_elements rawBytes)) = length rawBytes div 2" by simp
  moreover from acc(3) acc(1)
  have "\<forall>i < length (to_float32 (int16_elements rawBytes)).
            to_float32 (int16_elements rawBytes) ! i =
              real_of_int (sint (word_cat (rawBytes ! (2 * i + 1)) (rawBytes ! (2 * i)) :: int16))
                / 32768 \<and>
            - 1 \<le> to_float32 (int16_elements rawBytes) ! i \<and>
            to_float32 (int16_elements rawBytes) ! i < 1" by blast
  ultimately show ?thesis by blast
qed

theorem decode_pcm_samples_witness:
  "queueAudioChunk [0x00, 0x80, 0xFF, 0x7F] demo_active =
     Inr (deliver 3 (ArrayBufferData [0x00, 0x80, 0xFF, 0x7F]) demo_active) \<and>
   decode_pcm [0x00, 0x80, 0xFF, 0x7F] = Inr [- 1, 32767 / 32768] \<and>
   audioQueue (deliver 3 (ArrayBufferData [0x00, 0x80, 0xFF, 0x7F]) demo_active) =
     [ [- 1, 32767 / 32768] ] \<and>
   length (to_float32 (int16_elements [0x00, 0x80, 0xFF, 0x7F])) = 2"
proof -
  have d: "decode_pcm [0x00, 0x80, 0xFF, 0x7F] = Inr [- 1, 32767 / 32768]"
    by (simp add: decode_pcm_def Int16Array_def word_cat_eq)
  have g: "userMode demo_active = Text_and_audio" "\<not> isSpeaker demo_active" by code_simp+
  have g': "audioQueue demo_active = []" "\<not> isPlayingAudio demo_active"
    "audioContext demo_active = None" "newContextState demo_active = Suspended"
    by code_simp+
  have q: "queueAudioChunk [0x00, 0x80, 0xFF, 0x7F] demo_active =
      Inr (deliver 3 (ArrayBufferData [0x00, 0x80, 0xFF, 0x7F]) demo_active)"
    using g g' by (simp add: deliver_def queueAudioChunk_def d Let_def playNextChunk_def
        ensureAudioContext_def emit_def state_after_def)
  have a: "audioQueue (deliver 3 (ArrayBufferData [0x00, 0x80, 0xFF, 0x7F]) demo_active) =
      [ [- 1, 32767 / 32768] ]"
  proof -
    have "audioQueue demo_active = []" "\<not> isPlayingAudio demo_active"
      "audioContext demo_active = None" "newContextState demo_active = Suspended"
      by code_simp+
    then show ?thesis
      using g by (simp add: deliver_def queueAudioChunk_def d Let_def playNextChunk_def
          ensureAudioContext_def emit_def)
  qed
  from decode_pcm_samples [OF q]
  have "length (to_float32 (int16_elements [0x00, 0x80, 0xFF, 0x7F])) =
      length [0x00 :: byte, 0x80, 0xFF, 0x7F] div 2" by blast
  then have l: "length (to_float32 (int16_elements [0x00, 0x80, 0xFF, 0x7F])) = 2"
    by simp
  from q d a l show ?thesis by (intro conjI)
qed

end
